theory Spec2Isabelle
  imports Main
begin

unbundle bit_operations_syntax

section \<open>The AF\_UNIX transport of the vhost-user library (trans\_af\_unix.c)\<close>

text \<open>
  The development embeds \<^verbatim>\<open>lib/librte_vhost/trans_af_unix.c\<close>. The two message
  primitives (\<^verbatim>\<open>read_fd_message\<close>, \<^verbatim>\<open>send_fd_message\<close>) are functions of what the
  kernel answers; the connection management code is a state transformer over a record of
  the process state (descriptors, devices, heap blocks, dispatcher registrations, lists)
  that also keeps the sequence of operations performed. Answers of the operating system,
  of the device registry, of the dispatcher and of the owner's callbacks are parameters.
  Log output (\<^verbatim>\<open>RTE_LOG\<close>) is kept for the message primitives only.
\<close>

subsection \<open>Constants of the system headers (Linux, LP64)\<close>

definition MSG_CTRUNC :: int where "MSG_CTRUNC = 0x08"
definition MSG_TRUNC :: int where "MSG_TRUNC = 0x20"
definition MSG_NOSIGNAL :: int where "MSG_NOSIGNAL = 0x4000"
definition SOL_SOCKET :: int where "SOL_SOCKET = 1"
definition SCM_RIGHTS :: int where "SCM_RIGHTS = 1"
definition EINTR :: int where "EINTR = 4"
definition EINVAL :: int where "EINVAL = 22"
definition EPIPE :: int where "EPIPE = 32"
definition EISCONN :: int where "EISCONN = 106"
definition O_NONBLOCK :: int where "O_NONBLOCK = 0x800"
definition PATH_MAX :: nat where "PATH_MAX = 4096"
definition SUN_PATH_SIZE :: nat where "SUN_PATH_SIZE = 108"

definition sizeof_int :: nat where "sizeof_int = 4"
definition sizeof_size_t :: nat where "sizeof_size_t = 8"

text \<open>\<^verbatim>\<open>struct cmsghdr { size_t cmsg_len; int cmsg_level; int cmsg_type; }\<close>\<close>

definition sizeof_cmsghdr :: nat where "sizeof_cmsghdr = 16"

text \<open>Conversion of an \<^verbatim>\<open>int\<close> to \<^verbatim>\<open>size_t\<close> and back; \<^verbatim>\<open>size_t\<close> arithmetic wraps at \<open>2^64\<close>.\<close>

definition size_t_of_int :: "int \<Rightarrow> nat" where
  "size_t_of_int i = nat (i mod 2 ^ 64)"

definition int_of_size_t :: "nat \<Rightarrow> int" where
  "int_of_size_t n = (let m = int (n mod 2 ^ 32) in if m < 2 ^ 31 then m else m - 2 ^ 32)"

definition size_add :: "nat \<Rightarrow> nat \<Rightarrow> nat" where
  "size_add a b = (a + b) mod 2 ^ 64"

definition size_sub :: "nat \<Rightarrow> nat \<Rightarrow> nat" where
  "size_sub a b = (a + 2 ^ 64 - b mod 2 ^ 64) mod 2 ^ 64"

definition size_mul :: "nat \<Rightarrow> nat \<Rightarrow> nat" where
  "size_mul a b = (a * b) mod 2 ^ 64"

text \<open>
  The ancillary-data macros of \<^verbatim>\<open><sys/socket.h>\<close> (glibc):
  \<^verbatim>\<open>CMSG_ALIGN(len) = (len + sizeof(size_t) - 1) & ~(sizeof(size_t) - 1)\<close>,
  \<^verbatim>\<open>CMSG_SPACE(len) = CMSG_ALIGN(len) + CMSG_ALIGN(sizeof(struct cmsghdr))\<close>,
  \<^verbatim>\<open>CMSG_LEN(len) = CMSG_ALIGN(sizeof(struct cmsghdr)) + len\<close>.
\<close>

definition CMSG_ALIGN :: "nat \<Rightarrow> nat" where
  "CMSG_ALIGN len = size_add len (sizeof_size_t - 1) div sizeof_size_t * sizeof_size_t"

definition CMSG_SPACE :: "nat \<Rightarrow> nat" where
  "CMSG_SPACE len = size_add (CMSG_ALIGN len) (CMSG_ALIGN sizeof_cmsghdr)"

definition CMSG_LEN :: "nat \<Rightarrow> nat" where
  "CMSG_LEN len = size_add (CMSG_ALIGN sizeof_cmsghdr) len"

subsection \<open>Fd-passing channel: data\<close>

text \<open>
  One control message of a \<^verbatim>\<open>msghdr\<close>. The payload (\<^verbatim>\<open>CMSG_DATA\<close>) is read as an array of
  \<^verbatim>\<open>int\<close>, which is what an \<^verbatim>\<open>SCM_RIGHTS\<close> record carries; \<^verbatim>\<open>cmsg_len\<close> is the header
  plus the payload, as the kernel and \<^verbatim>\<open>send_fd_message\<close> set it.
\<close>

record cmsghdr =
  cmsg_level :: int
  cmsg_type :: int
  cmsg_data :: "int list"

definition cmsg_len :: "cmsghdr \<Rightarrow> nat" where
  "cmsg_len c = CMSG_LEN (size_mul (length (cmsg_data c)) sizeof_int)"

text \<open>What one \<^verbatim>\<open>recvmsg\<close> call hands back: its return value, \<^verbatim>\<open>msg_flags\<close> and the
  control messages it stored in the control buffer.\<close>

record recvmsg_reply =
  rm_ret :: int
  rm_flags :: int
  rm_control :: "cmsghdr list"

text \<open>The kernel, as a function of the socket, \<^verbatim>\<open>iov_len\<close> and \<^verbatim>\<open>msg_controllen\<close>.\<close>

type_synonym recvmsg_env = "int \<Rightarrow> nat \<Rightarrow> nat \<Rightarrow> recvmsg_reply"

text \<open>
  The caller's \<^verbatim>\<open>fds\<close> array after the call, the stores that fell outside it (index and
  value, in program order), \<^verbatim>\<open>*fd_num\<close>, the return value and the log lines (without
  their newline).
\<close>

record read_result =
  rr_ret :: int
  rr_fds :: "int list"
  rr_overrun :: "(int \<times> int) list"
  rr_fd_num :: int
  rr_log :: "string list"

type_synonym fd_array = "int list \<times> (int \<times> int) list"

text \<open>\<^verbatim>\<open>fds[i] = v\<close>: C stores at the address whether or not it lies in the array.\<close>

definition store_fd :: "fd_array \<Rightarrow> int \<Rightarrow> int \<Rightarrow> fd_array" where
  "store_fd m i v =
     (if 0 \<le> i \<and> nat i < length (fst m) then ((fst m)[nat i := v], snd m)
      else (fst m, snd m @ [(i, v)]))"

text \<open>\<^verbatim>\<open>memcpy(fds, CMSG_DATA(cmsg), n * sizeof(int))\<close>, \<open>n\<close> the number of whole ints.\<close>

definition memcpy_fds :: "fd_array \<Rightarrow> int list \<Rightarrow> nat \<Rightarrow> fd_array" where
  "memcpy_fds m src n =
     fold (\<lambda>i a. store_fd a (int i) (src ! i)) [0 ..< min n (length src)] m"

text \<open>\<^verbatim>\<open>while (got_fds < max_fds) fds[got_fds++] = -1;\<close>\<close>

function clear_unused :: "fd_array \<Rightarrow> int \<Rightarrow> int \<Rightarrow> fd_array" where
  "clear_unused m got_fds max_fds =
     (if got_fds < max_fds then clear_unused (store_fd m got_fds (- 1)) (got_fds + 1) max_fds
      else m)"
  by pat_completeness auto
termination
  by (relation "measure (\<lambda>(m, got_fds, max_fds). nat (max_fds - got_fds))") auto

declare clear_unused.simps [simp del]

text \<open>The loop over \<^verbatim>\<open>CMSG_FIRSTHDR\<close>/\<^verbatim>\<open>CMSG_NXTHDR\<close> stops at the first record with
  level \<^verbatim>\<open>SOL_SOCKET\<close> and type \<^verbatim>\<open>SCM_RIGHTS\<close>.\<close>

fun first_rights :: "cmsghdr list \<Rightarrow> cmsghdr option" where
  "first_rights [] = None"
| "first_rights (c # cs) =
     (if cmsg_level c = SOL_SOCKET \<and> cmsg_type c = SCM_RIGHTS then Some c
      else first_rights cs)"

text \<open>\<^verbatim>\<open>sizeof(control)\<close> for \<^verbatim>\<open>char control[CMSG_SPACE(max_fds * sizeof(int))]\<close>.\<close>

definition control_size :: "int \<Rightarrow> nat" where
  "control_size max_fds = CMSG_SPACE (size_mul (size_t_of_int max_fds) sizeof_int)"

definition read_fd_message ::
  "recvmsg_env \<Rightarrow> int \<Rightarrow> int \<Rightarrow> int list \<Rightarrow> int \<Rightarrow> read_result" where
  "read_fd_message recvmsg sockfd buflen fds max_fds =
     (let fd_num = 0;
          msgh = recvmsg sockfd (size_t_of_int buflen) (control_size max_fds);
          ret = rm_ret msgh
      in if ret \<le> 0 then
           \<lparr>rr_ret = ret, rr_fds = fds, rr_overrun = [], rr_fd_num = fd_num,
            rr_log = [''recvmsg failed'']\<rparr>
         else if rm_flags msgh AND (MSG_TRUNC OR MSG_CTRUNC) \<noteq> 0 then
           \<lparr>rr_ret = - 1, rr_fds = fds, rr_overrun = [], rr_fd_num = fd_num,
            rr_log = [''truncted msg'']\<rparr>
         else
           (case first_rights (rm_control msgh) of
              None \<Rightarrow>
                (let m = clear_unused (fds, []) 0 max_fds
                 in \<lparr>rr_ret = ret, rr_fds = fst m, rr_overrun = snd m, rr_fd_num = fd_num,
                     rr_log = []\<rparr>)
            | Some cmsg \<Rightarrow>
                (let got_fds = int_of_size_t (size_sub (cmsg_len cmsg) (CMSG_LEN 0) div sizeof_int);
                     m1 = memcpy_fds (fds, []) (cmsg_data cmsg)
                            (size_mul (size_t_of_int got_fds) sizeof_int div sizeof_int);
                     m2 = clear_unused m1 got_fds max_fds
                 in \<lparr>rr_ret = ret, rr_fds = fst m2, rr_overrun = snd m2, rr_fd_num = got_fds,
                     rr_log = []\<rparr>)))"

text \<open>
  What the kernel guarantees about the control data of a reply: the records lie one after
  the other in the control buffer, each starting at the aligned end of the one before, and
  the last one ends inside the \<^verbatim>\<open>msg_controllen\<close> bytes the call was given; when the
  data does not fit the kernel cuts it and sets \<^verbatim>\<open>MSG_CTRUNC\<close>. \<open>cmsg_size\<close> is the
  number of bytes a record occupies, header and payload.
\<close>

definition cmsg_size :: "cmsghdr \<Rightarrow> nat" where
  "cmsg_size c = sizeof_cmsghdr + sizeof_int * length (cmsg_data c)"

fun control_end :: "cmsghdr list \<Rightarrow> nat" where
  "control_end [] = 0"
| "control_end [c] = cmsg_size c"
| "control_end (c # cs) =
     (cmsg_size c + sizeof_size_t - 1) div sizeof_size_t * sizeof_size_t + control_end cs"

definition recvmsg_fits :: "nat \<Rightarrow> recvmsg_reply \<Rightarrow> bool" where
  "recvmsg_fits controllen k \<longleftrightarrow>
     rm_flags k AND MSG_CTRUNC \<noteq> 0 \<or> control_end (rm_control k) \<le> controllen"

subsection \<open>Fd-passing channel: sending\<close>

text \<open>The \<^verbatim>\<open>msghdr\<close> handed to \<^verbatim>\<open>sendmsg\<close>: one iovec of \<^verbatim>\<open>iov_len\<close> bytes and the
  control buffer (\<^verbatim>\<open>msg_control = NULL\<close> is the empty list with \<^verbatim>\<open>msg_controllen = 0\<close>).\<close>

record msghdr =
  msg_iov_len :: nat
  msg_control :: "cmsghdr list"
  msg_controllen :: nat

record sendmsg_reply =
  sm_ret :: int
  sm_errno :: int

text \<open>The kernel's answer to the \<open>k\<close>-th \<^verbatim>\<open>sendmsg\<close> call of one \<^verbatim>\<open>send_fd_message\<close>, given
  the socket, the message and the flags; \<^verbatim>\<open>errno\<close> is stored only when the call fails.\<close>

type_synonym sendmsg_env = "nat \<Rightarrow> int \<Rightarrow> msghdr \<Rightarrow> int \<Rightarrow> sendmsg_reply"

text \<open>Return value, \<^verbatim>\<open>errno\<close> afterwards, the flags and return value of every
  \<^verbatim>\<open>sendmsg\<close> call made (in order) and the log lines.\<close>

record send_result =
  sr_ret :: int
  sr_errno :: int
  sr_calls :: "(int \<times> int) list"
  sr_log :: "string list"

text \<open>
  \<^verbatim>\<open>do { ret = sendmsg(sockfd, &msgh, MSG_NOSIGNAL); } while (ret < 0 && errno == EINTR);\<close>
  The loop has no bound of its own: the first argument bounds the number of iterations
  and \<open>None\<close> says that the loop is still running when the bound is used up.
\<close>

fun sendmsg_retry ::
  "nat \<Rightarrow> sendmsg_env \<Rightarrow> int \<Rightarrow> msghdr \<Rightarrow> nat \<Rightarrow> int \<Rightarrow> (int \<times> int) list
     \<Rightarrow> (int \<times> int \<times> (int \<times> int) list) option" where
  "sendmsg_retry 0 sendmsg sockfd msgh k errno calls = None"
| "sendmsg_retry (Suc fuel) sendmsg sockfd msgh k errno calls =
     (let r = sendmsg k sockfd msgh MSG_NOSIGNAL;
          ret = sm_ret r;
          errno' = (if ret < 0 then sm_errno r else errno);
          calls' = calls @ [(MSG_NOSIGNAL, ret)]
      in if ret < 0 \<and> errno' = EINTR
         then sendmsg_retry fuel sendmsg sockfd msgh (k + 1) errno' calls'
         else Some (ret, errno', calls'))"

text \<open>\<^verbatim>\<open>CMSG_FIRSTHDR(&msgh)\<close> is \<^verbatim>\<open>NULL\<close> when the control buffer cannot hold a header.\<close>

definition CMSG_FIRSTHDR_is_NULL :: "nat \<Rightarrow> bool" where
  "CMSG_FIRSTHDR_is_NULL controllen \<longleftrightarrow> controllen < sizeof_cmsghdr"

text \<open>
  The message \<^verbatim>\<open>send_fd_message\<close> builds. \<^verbatim>\<open>fds\<close> is \<open>None\<close> for a \<^verbatim>\<open>NULL\<close> pointer;
  the caller's array holds at least \<^verbatim>\<open>fd_num\<close> descriptors, of which \<^verbatim>\<open>memcpy\<close> takes
  the first \<^verbatim>\<open>fd_num\<close> into a single \<^verbatim>\<open>SCM_RIGHTS\<close> record.
\<close>

definition send_msghdr :: "int \<Rightarrow> int list option \<Rightarrow> int \<Rightarrow> msghdr" where
  "send_msghdr buflen fds fd_num =
     (let fdsize = size_mul (size_t_of_int fd_num) sizeof_int
      in case fds of
           Some a \<Rightarrow>
             if fd_num > 0 then
               \<lparr>msg_iov_len = size_t_of_int buflen,
                msg_control = [\<lparr>cmsg_level = SOL_SOCKET, cmsg_type = SCM_RIGHTS,
                                cmsg_data = take (fdsize div sizeof_int) a\<rparr>],
                msg_controllen = CMSG_SPACE fdsize\<rparr>
             else
               \<lparr>msg_iov_len = size_t_of_int buflen, msg_control = [], msg_controllen = 0\<rparr>
         | None \<Rightarrow>
             \<lparr>msg_iov_len = size_t_of_int buflen, msg_control = [], msg_controllen = 0\<rparr>)"

definition send_fd_message ::
  "nat \<Rightarrow> sendmsg_env \<Rightarrow> int \<Rightarrow> int \<Rightarrow> int list option \<Rightarrow> int \<Rightarrow> int \<Rightarrow> send_result option" where
  "send_fd_message fuel sendmsg sockfd buflen fds fd_num errno =
     (let fdsize = size_mul (size_t_of_int fd_num) sizeof_int;
          msgh = send_msghdr buflen fds fd_num
      in if fds \<noteq> None \<and> fd_num > 0 \<and> CMSG_FIRSTHDR_is_NULL (CMSG_SPACE fdsize) then
           Some \<lparr>sr_ret = - 1, sr_errno = EINVAL, sr_calls = [], sr_log = [''cmsg == NULL'']\<rparr>
         else
           (case sendmsg_retry fuel sendmsg sockfd msgh 0 errno [] of
              None \<Rightarrow> None
            | Some (ret, errno', calls) \<Rightarrow>
                if ret < 0 then
                  Some \<lparr>sr_ret = ret, sr_errno = errno', sr_calls = calls,
                        sr_log = [''sendmsg error'']\<rparr>
                else
                  Some \<lparr>sr_ret = ret, sr_errno = errno', sr_calls = calls, sr_log = []\<rparr>))"

subsection \<open>Connection management: data\<close>

text \<open>Pointers are addresses, \<^verbatim>\<open>NULL\<close> is address 0.\<close>

type_synonym addr = nat

definition NULL :: addr where "NULL = 0"

text \<open>
  The fields of \<^verbatim>\<open>struct vhost_user_socket\<close> (declared in \<^verbatim>\<open>vhost_user.h\<close>) that this file
  reads. \<^verbatim>\<open>notify_new_connection\<close> and \<^verbatim>\<open>notify_destroy_connection\<close> say whether the
  function pointers \<^verbatim>\<open>notify_ops->new_connection\<close> and \<^verbatim>\<open>notify_ops->destroy_connection\<close>
  are set.
\<close>

record vhost_user_socket =
  path :: string
  is_server :: bool
  reconnect :: bool
  dequeue_zero_copy :: bool
  use_builtin_virtio_net :: bool
  vdpa_dev_id :: int
  notify_new_connection :: bool
  notify_destroy_connection :: bool

record vhost_user_connection =
  c_vsocket :: addr
  c_connfd :: int
  c_vid :: int

text \<open>\<^verbatim>\<open>struct af_unix_socket\<close>; \<^verbatim>\<open>socket\<close> is its first field, so a pointer to the one is a
  pointer to the other. \<^verbatim>\<open>conn_list\<close> holds the pointers of the tail queue in order;
  \<^verbatim>\<open>un\<close> is the \<^verbatim>\<open>sun_path\<close> of the address.\<close>

record af_unix_socket =
  socket :: vhost_user_socket
  conn_list :: "addr list"
  socket_fd :: int
  un :: string

record vhost_user_reconnect =
  r_un :: string
  r_fd :: int
  r_vsocket :: addr

text \<open>What a descriptor is registered for in the dispatcher (\<^verbatim>\<open>vhost_user.fdset\<close>): the read
  callback and its \<^verbatim>\<open>dat\<close> argument.\<close>

datatype fd_cb = Read_cb addr | Server_new_connection_cb addr

datatype mutex = Conn_mutex addr | Reconn_mutex

datatype tailq = Conn_list addr | Reconn_list

text \<open>The operations the code performs, with their arguments and, where the code looks
  at it, their result.\<close>

datatype event =
    Malloc addr
  | Free addr
  | Close int
  | Socket int
  | Connect int int
  | Fcntl_getfl int int
  | Fcntl_setfl int int int
  | Unlink string
  | Sleep nat
  | New_device int
  | Set_ifname int string nat
  | Set_builtin_virtio_net int bool
  | Attach_vdpa_device int int
  | Enable_dequeue_zero_copy int
  | Destroy_device_notify int
  | Destroy_device int
  | Msg_handler int int int
  | Cb_new_connection int int
  | Cb_destroy_connection int
  | Fdset_add int fd_cb int
  | Fdset_del int
  | Fdset_try_del int int
  | Fdset_pipe_notify
  | Mutex_lock mutex
  | Mutex_unlock mutex
  | Mutex_destroy mutex
  | Tailq_insert_tail tailq addr
  | Tailq_remove tailq addr

text \<open>
  The state of the process: open descriptors and their status flags, live devices, live
  heap blocks and the contents of memory by type, the dispatcher's registrations, the
  global \<^verbatim>\<open>reconn_list\<close>, and the operations performed so far.
\<close>

record world =
  open_fds :: "int set"
  fd_flags :: "int \<Rightarrow> int"
  devices :: "int set"
  allocated :: "addr set"
  conn_mem :: "addr \<Rightarrow> vhost_user_connection"
  reconn_mem :: "addr \<Rightarrow> vhost_user_reconnect"
  sock_mem :: "addr \<Rightarrow> af_unix_socket"
  fdset :: "(int \<times> fd_cb) list"
  reconn_list :: "addr list"
  trace :: "event list"

text \<open>
  What the code cannot decide: the answers of the allocator, the kernel, the device
  registry, the dispatcher, the protocol handler and the owner's callback, each as a
  function of the state in which the call is made (which includes the whole history).
  \<open>callback_busy\<close> says whether the read callback of a descriptor is running in the
  dispatcher's thread when \<^verbatim>\<open>fdset_try_del\<close> asks; \<open>callbacks_returned\<close> gives the read
  callbacks (descriptor and \<^verbatim>\<open>dat\<close>) that ran to their end in the dispatcher's thread
  while \<^verbatim>\<open>af_unix_socket_cleanup\<close> had released the list's mutex to try again.
\<close>

record env =
  malloc_ret :: "world \<Rightarrow> addr"
  socket_ret :: "world \<Rightarrow> int"
  connect_ret :: "world \<Rightarrow> int \<Rightarrow> int \<times> int"
  getfl_fails :: "world \<Rightarrow> int \<Rightarrow> bool"
  setfl_ret :: "world \<Rightarrow> int \<Rightarrow> int \<Rightarrow> int"
  new_device_ret :: "world \<Rightarrow> int"
  new_connection_ret :: "world \<Rightarrow> int \<Rightarrow> int"
  fdset_add_ret :: "world \<Rightarrow> int \<Rightarrow> int"
  msg_handler_ret :: "world \<Rightarrow> int \<Rightarrow> int \<Rightarrow> int"
  callback_busy :: "world \<Rightarrow> int \<Rightarrow> bool"
  callbacks_returned :: "world \<Rightarrow> (int \<times> addr) list"

definition emit :: "event \<Rightarrow> world \<Rightarrow> world" where
  "emit e w = w\<lparr>trace := trace w @ [e]\<rparr>"

subsection \<open>The C library and the kernel\<close>

definition c_malloc :: "env \<Rightarrow> world \<Rightarrow> addr \<times> world" where
  "c_malloc E w =
     (let p = malloc_ret E w
      in if p = NULL then (NULL, emit (Malloc NULL) w)
         else (p, emit (Malloc p) (w\<lparr>allocated := insert p (allocated w)\<rparr>)))"

definition c_free :: "addr \<Rightarrow> world \<Rightarrow> world" where
  "c_free p w = emit (Free p) (w\<lparr>allocated := allocated w - {p}\<rparr>)"

definition sys_close :: "int \<Rightarrow> world \<Rightarrow> world" where
  "sys_close fd w = emit (Close fd) (w\<lparr>open_fds := open_fds w - {fd}\<rparr>)"

definition O_RDWR :: int where "O_RDWR = 2"

definition sys_socket :: "env \<Rightarrow> world \<Rightarrow> int \<times> world" where
  "sys_socket E w =
     (let fd = socket_ret E w
      in if fd < 0 then (- 1, emit (Socket (- 1)) w)
         else (fd, emit (Socket fd)
                 (w\<lparr>open_fds := insert fd (open_fds w), fd_flags := (fd_flags w)(fd := O_RDWR)\<rparr>)))"

text \<open>\<^verbatim>\<open>connect\<close>: the return value and, when it is negative, \<^verbatim>\<open>errno\<close>.\<close>

definition sys_connect :: "env \<Rightarrow> int \<Rightarrow> string \<Rightarrow> world \<Rightarrow> (int \<times> int) \<times> world" where
  "sys_connect E fd sun_path w =
     (let r = connect_ret E w fd in (r, emit (Connect fd (fst r)) w))"

text \<open>\<^verbatim>\<open>fcntl(fd, F_GETFL, 0)\<close> and \<^verbatim>\<open>fcntl(fd, F_SETFL, flags)\<close>.\<close>

definition fcntl_getfl :: "env \<Rightarrow> int \<Rightarrow> world \<Rightarrow> int \<times> world" where
  "fcntl_getfl E fd w =
     (let r = (if getfl_fails E w fd then - 1 else fd_flags w fd)
      in (r, emit (Fcntl_getfl fd r) w))"

text \<open>\<^verbatim>\<open>F_SETFL\<close> ignores the access mode in its argument: the descriptor keeps the one
  it has and takes the other status flags from the argument.\<close>

definition O_ACCMODE :: int where "O_ACCMODE = 3"

definition fcntl_setfl :: "env \<Rightarrow> int \<Rightarrow> int \<Rightarrow> world \<Rightarrow> int \<times> world" where
  "fcntl_setfl E fd flags w =
     (let r = setfl_ret E w fd flags
      in if r = 0 then
           (0, emit (Fcntl_setfl fd flags 0)
                 (w\<lparr>fd_flags := (fd_flags w)
                      (fd := (fd_flags w fd AND O_ACCMODE) OR (flags AND NOT O_ACCMODE))\<rparr>))
         else (r, emit (Fcntl_setfl fd flags r) w))"

definition sys_unlink :: "string \<Rightarrow> world \<Rightarrow> world" where
  "sys_unlink p w = emit (Unlink p) w"

definition sys_sleep :: "nat \<Rightarrow> world \<Rightarrow> world" where
  "sys_sleep n w = emit (Sleep n) w"

definition strnlen :: "string \<Rightarrow> nat \<Rightarrow> nat" where
  "strnlen s n = min (length s) n"

definition pthread_mutex_lock :: "mutex \<Rightarrow> world \<Rightarrow> world" where
  "pthread_mutex_lock m w = emit (Mutex_lock m) w"

definition pthread_mutex_unlock :: "mutex \<Rightarrow> world \<Rightarrow> world" where
  "pthread_mutex_unlock m w = emit (Mutex_unlock m) w"

definition pthread_mutex_destroy :: "mutex \<Rightarrow> world \<Rightarrow> world" where
  "pthread_mutex_destroy m w = emit (Mutex_destroy m) w"

text \<open>The \<^verbatim>\<open>TAILQ\<close> macros on the two lists of this file.\<close>

definition tailq_insert_tail_conn :: "addr \<Rightarrow> addr \<Rightarrow> world \<Rightarrow> world" where
  "tailq_insert_tail_conn vsocket conn w =
     emit (Tailq_insert_tail (Conn_list vsocket) conn)
       (w\<lparr>sock_mem := (sock_mem w)
            (vsocket := (sock_mem w vsocket)\<lparr>conn_list := conn_list (sock_mem w vsocket) @ [conn]\<rparr>)\<rparr>)"

definition tailq_remove_conn :: "addr \<Rightarrow> addr \<Rightarrow> world \<Rightarrow> world" where
  "tailq_remove_conn vsocket conn w =
     emit (Tailq_remove (Conn_list vsocket) conn)
       (w\<lparr>sock_mem := (sock_mem w)
            (vsocket := (sock_mem w vsocket)\<lparr>conn_list := remove1 conn (conn_list (sock_mem w vsocket))\<rparr>)\<rparr>)"

definition tailq_insert_tail_reconn :: "addr \<Rightarrow> world \<Rightarrow> world" where
  "tailq_insert_tail_reconn reconn w =
     emit (Tailq_insert_tail Reconn_list reconn) (w\<lparr>reconn_list := reconn_list w @ [reconn]\<rparr>)"

definition tailq_remove_reconn :: "addr \<Rightarrow> world \<Rightarrow> world" where
  "tailq_remove_reconn reconn w =
     emit (Tailq_remove Reconn_list reconn) (w\<lparr>reconn_list := remove1 reconn (reconn_list w)\<rparr>)"

subsection \<open>The external collaborators\<close>

text \<open>
  Modelled from the spec: the device registry (\<^verbatim>\<open>vhost.c\<close>), which section 6 gives as
  \<^verbatim>\<open>create_device() -> device_id | failure\<close>, \<^verbatim>\<open>destroy_device(device_id)\<close>,
  \<^verbatim>\<open>lookup_device(device_id) -> handle | absent\<close>, \<^verbatim>\<open>notify_device_destroyed(handle)\<close> and
  four configuration calls that are assumed not to fail. A created device is live until
  it is destroyed; the configuration calls and the notification change nothing this file
  reads.
\<close>

definition vhost_new_device :: "env \<Rightarrow> world \<Rightarrow> int \<times> world" where
  "vhost_new_device E w =
     (let vid = new_device_ret E w
      in if vid < 0 then (- 1, emit (New_device (- 1)) w)
         else (vid, emit (New_device vid) (w\<lparr>devices := insert vid (devices w)\<rparr>)))"

definition vhost_destroy_device :: "int \<Rightarrow> world \<Rightarrow> world" where
  "vhost_destroy_device vid w = emit (Destroy_device vid) (w\<lparr>devices := devices w - {vid}\<rparr>)"

definition get_device :: "int \<Rightarrow> world \<Rightarrow> bool" where
  "get_device vid w \<longleftrightarrow> vid \<in> devices w"

definition vhost_destroy_device_notify :: "int \<Rightarrow> world \<Rightarrow> world" where
  "vhost_destroy_device_notify vid w = emit (Destroy_device_notify vid) w"

definition vhost_set_ifname :: "int \<Rightarrow> string \<Rightarrow> nat \<Rightarrow> world \<Rightarrow> world" where
  "vhost_set_ifname vid name len w = emit (Set_ifname vid name len) w"

definition vhost_set_builtin_virtio_net :: "int \<Rightarrow> bool \<Rightarrow> world \<Rightarrow> world" where
  "vhost_set_builtin_virtio_net vid enable w = emit (Set_builtin_virtio_net vid enable) w"

definition vhost_attach_vdpa_device :: "int \<Rightarrow> int \<Rightarrow> world \<Rightarrow> world" where
  "vhost_attach_vdpa_device vid did w = emit (Attach_vdpa_device vid did) w"

definition vhost_enable_dequeue_zero_copy :: "int \<Rightarrow> world \<Rightarrow> world" where
  "vhost_enable_dequeue_zero_copy vid w = emit (Enable_dequeue_zero_copy vid) w"

text \<open>
  Modelled from the spec: the readiness dispatcher (\<^verbatim>\<open>fd_man.c\<close>), section 6:
  \<^verbatim>\<open>register(fd, read_callback, opaque_data) -> Result\<close>, \<^verbatim>\<open>deregister(fd)\<close>,
  \<^verbatim>\<open>try_deregister(fd) -> Result\<close> (non-blocking, fails if the callback is in flight) and
  \<^verbatim>\<open>wake()\<close>. A failed call leaves the registrations as they were.
\<close>

definition fdset_add :: "env \<Rightarrow> int \<Rightarrow> fd_cb \<Rightarrow> world \<Rightarrow> int \<times> world" where
  "fdset_add E fd cb w =
     (let r = fdset_add_ret E w fd
      in if r < 0 then (r, emit (Fdset_add fd cb r) w)
         else (0, emit (Fdset_add fd cb 0) (w\<lparr>fdset := fdset w @ [(fd, cb)]\<rparr>)))"

definition fdset_del :: "int \<Rightarrow> world \<Rightarrow> world" where
  "fdset_del fd w = emit (Fdset_del fd) (w\<lparr>fdset := filter (\<lambda>e. fst e \<noteq> fd) (fdset w)\<rparr>)"

definition fdset_try_del :: "env \<Rightarrow> int \<Rightarrow> world \<Rightarrow> int \<times> world" where
  "fdset_try_del E fd w =
     (if callback_busy E w fd then (- 1, emit (Fdset_try_del fd (- 1)) w)
      else (0, emit (Fdset_try_del fd 0) (w\<lparr>fdset := filter (\<lambda>e. fst e \<noteq> fd) (fdset w)\<rparr>)))"

definition fdset_pipe_notify :: "world \<Rightarrow> world" where
  "fdset_pipe_notify w = emit Fdset_pipe_notify w"

text \<open>
  Modelled from the spec: the protocol handler (\<^verbatim>\<open>vhost_user.c\<close>),
  \<^verbatim>\<open>handle_one_round(device_id, fd) -> Result\<close>, and the owner's callbacks
  \<^verbatim>\<open>new_connection(device_id) -> Result\<close> and \<^verbatim>\<open>destroy_connection(device_id)\<close>.
\<close>

definition vhost_user_msg_handler :: "env \<Rightarrow> int \<Rightarrow> int \<Rightarrow> world \<Rightarrow> int \<times> world" where
  "vhost_user_msg_handler E vid fd w =
     (let r = msg_handler_ret E w vid fd in (r, emit (Msg_handler vid fd r) w))"

definition cb_new_connection :: "env \<Rightarrow> int \<Rightarrow> world \<Rightarrow> int \<times> world" where
  "cb_new_connection E vid w =
     (let r = new_connection_ret E w vid in (r, emit (Cb_new_connection vid r) w))"

definition cb_destroy_connection :: "int \<Rightarrow> world \<Rightarrow> world" where
  "cb_destroy_connection vid w = emit (Cb_destroy_connection vid) w"

subsection \<open>Connection management: the functions of the file\<close>

text \<open>The labels \<^verbatim>\<open>err\<close> and \<^verbatim>\<open>err_cleanup\<close> of \<^verbatim>\<open>vhost_user_add_connection\<close>.\<close>

definition add_connection_err :: "addr \<Rightarrow> int \<Rightarrow> world \<Rightarrow> world" where
  "add_connection_err conn fd w = sys_close fd (c_free conn w)"

definition add_connection_err_cleanup :: "int \<Rightarrow> addr \<Rightarrow> int \<Rightarrow> world \<Rightarrow> world" where
  "add_connection_err_cleanup vid conn fd w =
     add_connection_err conn fd (vhost_destroy_device vid w)"

text \<open>The four configuration calls between device creation and the callback.\<close>

definition configure_device :: "int \<Rightarrow> vhost_user_socket \<Rightarrow> world \<Rightarrow> world" where
  "configure_device vid vs w =
     (let size = strnlen (path vs) PATH_MAX;
          w = vhost_set_ifname vid (path vs) size w;
          w = vhost_set_builtin_virtio_net vid (use_builtin_virtio_net vs) w;
          w = vhost_attach_vdpa_device vid (vdpa_dev_id vs) w
      in if dequeue_zero_copy vs then vhost_enable_dequeue_zero_copy vid w else w)"

text \<open>\<^verbatim>\<open>if (vsocket->notify_ops->new_connection) ret = ...->new_connection(vid);\<close>
  with result 0 when the pointer is not set.\<close>

definition notify_new :: "env \<Rightarrow> vhost_user_socket \<Rightarrow> int \<Rightarrow> world \<Rightarrow> int \<times> world" where
  "notify_new E vs vid w =
     (if notify_new_connection vs then cb_new_connection E vid w else (0, w))"

text \<open>\<^verbatim>\<open>conn->connfd = fd; conn->vsocket = vsocket; conn->vid = vid;\<close>\<close>

definition populate_conn :: "addr \<Rightarrow> int \<Rightarrow> addr \<Rightarrow> int \<Rightarrow> world \<Rightarrow> world" where
  "populate_conn conn fd vsocket vid w =
     w\<lparr>conn_mem := (conn_mem w)(conn := \<lparr>c_vsocket = vsocket, c_connfd = fd, c_vid = vid\<rparr>)\<rparr>"

definition vhost_user_add_connection :: "env \<Rightarrow> int \<Rightarrow> addr \<Rightarrow> world \<Rightarrow> world" where
  "vhost_user_add_connection E fd vsocket w =
     (if vsocket = NULL then w
      else
        (let (conn, w) = c_malloc E w
         in if conn = NULL then sys_close fd w
            else
              (let (vid, w) = vhost_new_device E w
               in if vid = - 1 then add_connection_err conn fd w
                  else
                    (let vs = socket (sock_mem w vsocket);
                         w = configure_device vid vs w;
                         (ret, w) = notify_new E vs vid w
                     in if ret < 0 then add_connection_err_cleanup vid conn fd w
                        else
                          (let w = populate_conn conn fd vsocket vid w;
                               (ret, w) = fdset_add E fd (Read_cb conn) w
                           in if ret < 0 then
                                add_connection_err_cleanup vid conn fd
                                  (if notify_destroy_connection vs
                                   then cb_destroy_connection (c_vid (conn_mem w conn)) w
                                   else w)
                              else
                                fdset_pipe_notify
                                  (pthread_mutex_unlock (Conn_mutex vsocket)
                                     (tailq_insert_tail_conn vsocket conn
                                        (pthread_mutex_lock (Conn_mutex vsocket) w))))))))"

text \<open>\<^verbatim>\<open>strncpy(un->sun_path, vsocket->path, sizeof(un->sun_path))\<close> followed by the
  terminating zero in the last byte.\<close>

definition create_unix_socket :: "env \<Rightarrow> addr \<Rightarrow> world \<Rightarrow> int \<times> world" where
  "create_unix_socket E vsocket w =
     (let (fd, w) = sys_socket E w
      in if fd < 0 then (- 1, w)
         else
           (let vs = socket (sock_mem w vsocket);
                (r, w) = (if \<not> is_server vs then fcntl_setfl E fd O_NONBLOCK w else (0, w))
            in if r \<noteq> 0 then (- 1, sys_close fd w)
               else (0, w\<lparr>sock_mem := (sock_mem w)
                            (vsocket := (sock_mem w vsocket)
                               \<lparr>socket_fd := fd,
                                un := take (SUN_PATH_SIZE - 1) (path vs)\<rparr>)\<rparr>)))"

definition vhost_user_connect_nonblock :: "env \<Rightarrow> int \<Rightarrow> string \<Rightarrow> world \<Rightarrow> int \<times> world" where
  "vhost_user_connect_nonblock E fd sun_path w =
     (let ((ret, errno), w) = sys_connect E fd sun_path w
      in if ret < 0 \<and> errno \<noteq> EISCONN then (- 1, w)
         else
           (let (flags, w) = fcntl_getfl E fd w
            in if flags < 0 then (- 2, w)
               else if flags AND O_NONBLOCK \<noteq> 0 then
                 (let (r, w) = fcntl_setfl E fd (flags AND NOT O_NONBLOCK) w
                  in if r \<noteq> 0 then (- 2, w) else (0, w))
               else (0, w)))"

definition vhost_user_start_client :: "env \<Rightarrow> addr \<Rightarrow> world \<Rightarrow> int \<times> world" where
  "vhost_user_start_client E vsocket w =
     (let fd = socket_fd (sock_mem w vsocket);
          (ret, w) = vhost_user_connect_nonblock E fd (un (sock_mem w vsocket)) w
      in if ret = 0 then (0, vhost_user_add_connection E fd vsocket w)
         else if ret = - 2 \<or> \<not> reconnect (socket (sock_mem w vsocket)) then
           (- 1, sys_close fd w)
         else
           (let (reconn, w) = c_malloc E w
            in if reconn = NULL then (- 1, sys_close fd w)
               else
                 (let w = w\<lparr>reconn_mem := (reconn_mem w)
                              (reconn := \<lparr>r_un = un (sock_mem w vsocket), r_fd = fd,
                                          r_vsocket = vsocket\<rparr>)\<rparr>
                  in (0, pthread_mutex_unlock Reconn_mutex
                           (tailq_insert_tail_reconn reconn
                              (pthread_mutex_lock Reconn_mutex w))))))"

text \<open>The callback takes \<^verbatim>\<open>*remove\<close> as it is on entry and gives it back.\<close>

definition vhost_user_read_cb :: "env \<Rightarrow> int \<Rightarrow> addr \<Rightarrow> int \<Rightarrow> world \<Rightarrow> int \<times> world" where
  "vhost_user_read_cb E connfd conn remove w =
     (let vsocket = c_vsocket (conn_mem w conn);
          (ret, w) = vhost_user_msg_handler E (c_vid (conn_mem w conn)) connfd w
      in if ret < 0 then
           (let dev = get_device (c_vid (conn_mem w conn)) w;
                w = sys_close connfd w;
                remove = 1;
                w = (if dev then vhost_destroy_device_notify (c_vid (conn_mem w conn)) w else w);
                w = (if notify_destroy_connection (socket (sock_mem w vsocket))
                     then cb_destroy_connection (c_vid (conn_mem w conn)) w else w);
                w = vhost_destroy_device (c_vid (conn_mem w conn)) w;
                w = pthread_mutex_lock (Conn_mutex vsocket) w;
                w = tailq_remove_conn vsocket conn w;
                w = pthread_mutex_unlock (Conn_mutex vsocket) w;
                w = c_free conn w
            in if reconnect (socket (sock_mem w vsocket)) then
                 (remove, snd (vhost_user_start_client E vsocket
                                 (snd (create_unix_socket E vsocket w))))
               else (remove, w))
         else (remove, w))"

text \<open>
  The body of the loop of \<^verbatim>\<open>vhost_user_client_reconnect\<close> for one entry; \<^verbatim>\<open>remove_fd\<close> is
  its label.
\<close>

definition remove_fd :: "addr \<Rightarrow> world \<Rightarrow> world" where
  "remove_fd reconn w = c_free reconn (tailq_remove_reconn reconn w)"

definition reconnect_entry :: "env \<Rightarrow> addr \<Rightarrow> world \<Rightarrow> world" where
  "reconnect_entry E reconn w =
     (let (ret, w) = vhost_user_connect_nonblock E (r_fd (reconn_mem w reconn))
                       (r_un (reconn_mem w reconn)) w
      in if ret = - 2 then remove_fd reconn (sys_close (r_fd (reconn_mem w reconn)) w)
         else if ret = - 1 then w
         else remove_fd reconn
                (vhost_user_add_connection E (r_fd (reconn_mem w reconn))
                   (r_vsocket (reconn_mem w reconn)) w))"

text \<open>
  The \<^verbatim>\<open>for\<close> loop reads \<^verbatim>\<open>TAILQ_NEXT\<close> before the body runs and the body removes no entry
  but its own, so it visits the entries that are in the list when the sweep starts, in
  order.
\<close>

fun reconnect_entries :: "env \<Rightarrow> addr list \<Rightarrow> world \<Rightarrow> world" where
  "reconnect_entries E [] w = w"
| "reconnect_entries E (reconn # rest) w = reconnect_entries E rest (reconnect_entry E reconn w)"

text \<open>One round of the \<^verbatim>\<open>while (1)\<close> of \<^verbatim>\<open>vhost_user_client_reconnect\<close>, and the state
  after \<open>n\<close> rounds; the thread itself never returns.\<close>

definition vhost_user_client_reconnect_sweep :: "env \<Rightarrow> world \<Rightarrow> world" where
  "vhost_user_client_reconnect_sweep E w =
     (let w = pthread_mutex_lock Reconn_mutex w;
          w = reconnect_entries E (reconn_list w) w;
          w = pthread_mutex_unlock Reconn_mutex w
      in sys_sleep 1 w)"

fun vhost_user_client_reconnect :: "nat \<Rightarrow> env \<Rightarrow> world \<Rightarrow> world" where
  "vhost_user_client_reconnect 0 E w = w"
| "vhost_user_client_reconnect (Suc n) E w =
     vhost_user_client_reconnect n E (vhost_user_client_reconnect_sweep E w)"









section \<open>Notions used in the statements\<close>

text \<open>A \<^verbatim>\<open>sendmsg\<close> call that failed with \<^verbatim>\<open>EINTR\<close>.\<close>

definition interrupted :: "sendmsg_reply \<Rightarrow> bool" where
  "interrupted r \<longleftrightarrow> sm_ret r < 0 \<and> sm_errno r = EINTR"

text \<open>\<open>precedes a b tr\<close>: \<open>a\<close> occurs in \<open>tr\<close> and \<open>b\<close> occurs after its first occurrence.\<close>

definition precedes :: "'a \<Rightarrow> 'a \<Rightarrow> 'a list \<Rightarrow> bool" where
  "precedes a b tr \<longleftrightarrow> b \<in> set (drop 1 (dropWhile (\<lambda>e. e \<noteq> a) tr))"

text \<open>The operations of \<open>configure_device\<close>, in order.\<close>

definition configure_events :: "int \<Rightarrow> vhost_user_socket \<Rightarrow> event list" where
  "configure_events vid vs =
     [Set_ifname vid (path vs) (strnlen (path vs) PATH_MAX),
      Set_builtin_virtio_net vid (use_builtin_virtio_net vs),
      Attach_vdpa_device vid (vdpa_dev_id vs)] @
     (if dequeue_zero_copy vs then [Enable_dequeue_zero_copy vid] else [])"









subsection \<open>Concrete runs of the message primitives\<close>

text \<open>A reply of 4 bytes carrying one \<^verbatim>\<open>SCM_RIGHTS\<close> record with the descriptors 7 and 8.\<close>

definition recvmsg_two_fds :: recvmsg_env where
  "recvmsg_two_fds sockfd iov_len controllen =
     \<lparr>rm_ret = 4, rm_flags = 0,
      rm_control = [\<lparr>cmsg_level = SOL_SOCKET, cmsg_type = SCM_RIGHTS, cmsg_data = [7, 8]\<rparr>]\<rparr>"

text \<open>The peer has closed the connection: \<^verbatim>\<open>recvmsg\<close> returns 0.\<close>

definition recvmsg_closed :: recvmsg_env where
  "recvmsg_closed sockfd iov_len controllen = \<lparr>rm_ret = 0, rm_flags = 0, rm_control = []\<rparr>"

text \<open>A reply of 4 bytes whose control data was cut.\<close>

definition recvmsg_ctrunc :: recvmsg_env where
  "recvmsg_ctrunc sockfd iov_len controllen =
     \<lparr>rm_ret = 4, rm_flags = MSG_CTRUNC, rm_control = []\<rparr>"

text \<open>Two interrupted \<^verbatim>\<open>sendmsg\<close> calls, then a broken pipe.\<close>

definition sendmsg_eintr_twice_then_epipe :: sendmsg_env where
  "sendmsg_eintr_twice_then_epipe k sockfd msgh flags =
     (if k < 2 then \<lparr>sm_ret = - 1, sm_errno = EINTR\<rparr> else \<lparr>sm_ret = - 1, sm_errno = EPIPE\<rparr>)"

subsection \<open>Concrete runs of the connection management code\<close>

text \<open>An environment in which every call succeeds: fresh heap addresses and descriptors,
  device id 0, no callback in flight.\<close>

definition env_ok :: env where
  "env_ok =
     \<lparr>malloc_ret = (\<lambda>w. 100 + length (trace w)),
      socket_ret = (\<lambda>w. 20 + int (length (trace w))),
      connect_ret = (\<lambda>w fd. (0, 0)),
      getfl_fails = (\<lambda>w fd. False),
      setfl_ret = (\<lambda>w fd flags. 0),
      new_device_ret = (\<lambda>w. 0),
      new_connection_ret = (\<lambda>w vid. 0),
      fdset_add_ret = (\<lambda>w fd. 0),
      msg_handler_ret = (\<lambda>w vid fd. 0),
      callback_busy = (\<lambda>w fd. False),
      callbacks_returned = (\<lambda>w. [])\<rparr>"

text \<open>A client endpoint with reconnection at address 1 that owns descriptor 5, and a
  server endpoint at address 2 that listens on descriptor 6.\<close>

definition client_socket :: af_unix_socket where
  "client_socket =
     \<lparr>socket = \<lparr>path = ''/tmp/sock'', is_server = False, reconnect = True,
                dequeue_zero_copy = False, use_builtin_virtio_net = False, vdpa_dev_id = - 1,
                notify_new_connection = True, notify_destroy_connection = True\<rparr>,
      conn_list = [], socket_fd = 5, un = ''/tmp/sock''\<rparr>"

definition server_socket :: af_unix_socket where
  "server_socket =
     \<lparr>socket = \<lparr>path = ''/tmp/srv'', is_server = True, reconnect = False,
                dequeue_zero_copy = False, use_builtin_virtio_net = False, vdpa_dev_id = - 1,
                notify_new_connection = True, notify_destroy_connection = True\<rparr>,
      conn_list = [], socket_fd = 6, un = ''/tmp/srv''\<rparr>"

definition world0 :: world where
  "world0 =
     \<lparr>open_fds = {5, 6},
      fd_flags = (\<lambda>fd. if fd = 5 then O_RDWR OR O_NONBLOCK else O_RDWR),
      devices = {},
      allocated = {1, 2},
      conn_mem = (\<lambda>p. \<lparr>c_vsocket = NULL, c_connfd = - 1, c_vid = - 1\<rparr>),
      reconn_mem = (\<lambda>p. \<lparr>r_un = [], r_fd = - 1, r_vsocket = NULL\<rparr>),
      sock_mem = (\<lambda>p. if p = 2 then server_socket else client_socket),
      fdset = [(6, Server_new_connection_cb 2)],
      reconn_list = [],
      trace = []\<rparr>"

text \<open>The dispatcher refuses every registration.\<close>

definition env_no_register :: env where
  "env_no_register = env_ok\<lparr>fdset_add_ret := (\<lambda>w fd. - 1)\<rparr>"

text \<open>\<^verbatim>\<open>connect\<close> fails with \<^verbatim>\<open>ECONNREFUSED\<close> (111).\<close>

definition env_refused :: env where
  "env_refused = env_ok\<lparr>connect_ret := (\<lambda>w fd. (- 1, 111))\<rparr>"

text \<open>\<^verbatim>\<open>connect\<close> fails with \<^verbatim>\<open>ECONNREFUSED\<close> and \<^verbatim>\<open>malloc\<close> returns \<^verbatim>\<open>NULL\<close>.\<close>

definition env_refused_no_memory :: env where
  "env_refused_no_memory =
     env_ok\<lparr>connect_ret := (\<lambda>w fd. (- 1, 111)), malloc_ret := (\<lambda>w. NULL)\<rparr>"

text \<open>The client endpoint has a pending reconnect entry at address 50 for descriptor 5.\<close>

definition world_pending :: world where
  "world_pending =
     world0\<lparr>reconn_mem := (\<lambda>p. \<lparr>r_un = ''/tmp/sock'', r_fd = 5, r_vsocket = 1\<rparr>),
            reconn_list := [50],
            allocated := {1, 2, 50}\<rparr>"

text \<open>The client endpoint has a live connection at address 60 on descriptor 5 with
  device 0.\<close>

definition world_connected :: world where
  "world_connected =
     world0\<lparr>conn_mem := (\<lambda>p. \<lparr>c_vsocket = 1, c_connfd = 5, c_vid = 0\<rparr>),
            sock_mem := (\<lambda>p. if p = 2 then server_socket
                               else client_socket\<lparr>conn_list := [60]\<rparr>),
            devices := {0},
            allocated := {1, 2, 60},
            fdset := [(6, Server_new_connection_cb 2), (5, Read_cb 60)]\<rparr>"

text \<open>The protocol handler reports a failure.\<close>

definition env_handler_fails :: env where
  "env_handler_fails = env_ok\<lparr>msg_handler_ret := (\<lambda>w vid fd. - 1)\<rparr>"

text \<open>The read callback of every descriptor is in flight, for ever.\<close>

definition env_busy :: env where
  "env_busy = env_ok\<lparr>callback_busy := (\<lambda>w fd. True)\<rparr>"

text \<open>The read callback of descriptor 5 is in flight when the first two passes ask (the
  passes that start before the eighth operation); between the first and the second pass
  it finishes a protocol round, which succeeds.\<close>

definition env_busy_at_first :: env where
  "env_busy_at_first =
     env_ok\<lparr>callback_busy := (\<lambda>w fd. length (trace w) < 8),
            callbacks_returned := (\<lambda>w. if length (trace w) = 5 then [(5, 60)] else [])\<rparr>"

text \<open>The read callback of descriptor 5 is in flight when the first pass asks. While the
  cleanup has released the mutex the protocol handler fails in that callback and the
  callback runs to its end; \<^verbatim>\<open>connect\<close> fails with \<^verbatim>\<open>ECONNREFUSED\<close>.\<close>

definition env_race :: env where
  "env_race =
     env_ok\<lparr>msg_handler_ret := (\<lambda>w vid fd. - 1),
            connect_ret := (\<lambda>w fd. (- 1, 111)),
            callback_busy := (\<lambda>w fd. length (trace w) < 4),
            callbacks_returned := (\<lambda>w. if length (trace w) = 5 then [(5, 60)] else [])\<rparr>"

text \<open>The protocol handler reports a failure, \<^verbatim>\<open>socket\<close> fails, and \<^verbatim>\<open>connect\<close> fails with
  \<^verbatim>\<open>EBADF\<close> (9).\<close>

definition env_no_socket :: env where
  "env_no_socket =
     env_ok\<lparr>msg_handler_ret := (\<lambda>w vid fd. - 1),
            socket_ret := (\<lambda>w. - 1),
            connect_ret := (\<lambda>w fd. (- 1, 9))\<rparr>"

text \<open>The server endpoint has its reconnect flag set and a live connection at address 61
  on descriptor 7 with device 0.\<close>

definition world_server_flagged :: world where
  "world_server_flagged =
     world0\<lparr>open_fds := {5, 6, 7},
            conn_mem := (\<lambda>p. \<lparr>c_vsocket = 2, c_connfd = 7, c_vid = 0\<rparr>),
            sock_mem := (\<lambda>p. if p = 2
                               then server_socket
                                      \<lparr>socket := (socket server_socket)\<lparr>reconnect := True\<rparr>,
                                       conn_list := [61]\<rparr>
                               else client_socket),
            devices := {0},
            allocated := {1, 2, 61},
            fdset := [(6, Server_new_connection_cb 2), (7, Read_cb 61)]\<rparr>"
section \<open>Properties of the Fd-passing channel\<close>

lemmas abi_defs = CMSG_LEN_def CMSG_SPACE_def CMSG_ALIGN_def size_add_def size_mul_def
  size_sub_def size_t_of_int_def int_of_size_t_def sizeof_int_def sizeof_size_t_def
  sizeof_cmsghdr_def

subsection \<open>Receiving\<close>

lemma clear_unused_in_range:
  "0 \<le> g \<Longrightarrow> g \<le> mx \<Longrightarrow> nat mx \<le> length fds \<Longrightarrow>
   clear_unused (fds, ov) g mx =
     (take (nat g) fds @ replicate (nat (mx - g)) (- 1) @ drop (nat mx) fds, ov)"
proof (induction "(fds, ov)" g mx arbitrary: fds rule: clear_unused.induct)
  case (1 g mx)
  show ?case
  proof (cases "g < mx")
    case False
    with "1.prems" have "g = mx" by simp
    then show ?thesis by (subst clear_unused.simps) simp
  next
    case True
    with "1.prems" have lt: "nat g < length fds" by linarith
    have st: "store_fd (fds, ov) g (- 1) = (fds[nat g := - 1], ov)"
      using lt "1.prems" by (simp add: store_fd_def)
    have ih: "clear_unused (fds[nat g := - 1], ov) (g + 1) mx =
        (take (nat (g + 1)) (fds[nat g := - 1]) @ replicate (nat (mx - (g + 1))) (- 1)
           @ drop (nat mx) (fds[nat g := - 1]), ov)"
      using "1.hyps"[OF True st] "1.prems" True by simp
    have a: "take (nat (g + 1)) (fds[nat g := - 1]) = take (nat g) fds @ [- 1]"
      using lt "1.prems" by (simp add: nat_add_distrib take_Suc_conv_app_nth)
    have b: "drop (nat mx) (fds[nat g := - 1]) = drop (nat mx) fds"
      using True "1.prems" by simp
    have "nat (mx - g) = Suc (nat (mx - (g + 1)))"
      using True by linarith
    then have c: "replicate (nat (mx - g)) (- 1 :: int) =
        (- 1) # replicate (nat (mx - (g + 1))) (- 1)"
      by simp
    show ?thesis
      by (subst clear_unused.simps) (simp add: True st ih a b c)
  qed
qed

lemma memcpy_fds_in_range:
  "n \<le> length src \<Longrightarrow> n \<le> length dst \<Longrightarrow>
   memcpy_fds (dst, ov) src n = (take n src @ drop n dst, ov)"
proof (induction n)
  case 0
  then show ?case by (simp add: memcpy_fds_def)
next
  case (Suc n)
  then have ih: "fold (\<lambda>i a. store_fd a (int i) (src ! i)) [0 ..< n] (dst, ov) =
      (take n src @ drop n dst, ov)"
    by (simp add: memcpy_fds_def min_def)
  have l: "length (take n src) = n" using Suc.prems by simp
  have "(take n src @ drop n dst)[n := src ! n] = take n src @ (drop n dst)[0 := src ! n]"
    using l by (simp add: list_update_append)
  also have "(drop n dst)[0 := src ! n] = src ! n # drop (Suc n) dst"
    using Suc.prems by (metis Cons_nth_drop_Suc Suc_le_lessD list_update_code(2))
  also have "take n src @ src ! n # drop (Suc n) dst = take (Suc n) src @ drop (Suc n) dst"
    using Suc.prems by (simp add: take_Suc_conv_app_nth)
  finally have u: "(take n src @ drop n dst)[n := src ! n] =
      take (Suc n) src @ drop (Suc n) dst" .
  show ?case
    using Suc.prems ih u by (simp add: memcpy_fds_def min_def store_fd_def)
qed

lemma first_rights_fits:
  "first_rights cs = Some c \<Longrightarrow> cmsg_size c \<le> control_end cs"
proof (induction cs rule: control_end.induct)
  case 1
  then show ?case by simp
next
  case (2 c')
  then show ?case by (auto split: if_splits)
next
  case (3 c' v va)
  have "cmsg_size c' \<le> (cmsg_size c' + sizeof_size_t - 1) div sizeof_size_t * sizeof_size_t"
    by (simp add: sizeof_size_t_def)
  with 3 show ?case by (auto split: if_splits simp: trans_le_add1 trans_le_add2)
qed

lemma control_size_even:
  assumes "0 \<le> max_fds" "max_fds < 2 ^ 31" "even max_fds"
  shows "control_size max_fds = 4 * nat max_fds + 16"
proof -
  have a: "max_fds mod 2 ^ 64 = max_fds" using assms by simp
  have m: "nat max_fds < 2 ^ 31" using assms by (simp add: nat_less_iff)
  then have b: "nat max_fds * 4 < 2 ^ 64" by simp
  obtain h where h: "nat max_fds = 2 * h" using assms(1,3) by (metis evenE even_nat_iff)
  have c: "(nat max_fds * 4 + 7) div 8 * 8 = nat max_fds * 4" unfolding h by simp
  have d: "nat max_fds * 4 + 7 < 2 ^ 64" "nat max_fds * 4 + 16 < 2 ^ 64" using m by simp_all
  show ?thesis
    using a b c d by (simp add: control_size_def abi_defs)
qed

lemma got_fds_small:
  assumes "n < 2 ^ 31" "length (cmsg_data c) = n"
  shows "int_of_size_t (size_sub (cmsg_len c) (CMSG_LEN 0) div sizeof_int) = int n"
    and "size_mul (size_t_of_int (int n)) sizeof_int div sizeof_int = n"
proof -
  have a: "n * 4 < 2 ^ 64" "16 + n * 4 < 2 ^ 64" "n < 2 ^ 32" "int n < 2 ^ 64"
    using assms by simp_all
  have b: "int n < 2147483648" using assms by simp
  show "int_of_size_t (size_sub (cmsg_len c) (CMSG_LEN 0) div sizeof_int) = int n"
    using a b assms(2) by (simp add: cmsg_len_def abi_defs Let_def)
  show "size_mul (size_t_of_int (int n)) sizeof_int div sizeof_int = n"
    using a by (simp add: abi_defs)
qed

text \<open>
  With a capacity that leaves no padding in the control buffer (an even \<^verbatim>\<open>max_fds\<close>, as
  the 8 of the caller in \<^verbatim>\<open>vhost_user.c\<close>), a successful receive copies the descriptors
  of the first \<^verbatim>\<open>SCM_RIGHTS\<close> record, at most \<^verbatim>\<open>max_fds\<close> of them, reports their number and
  sets every further slot to -1; no store falls outside the array.
\<close>

lemma read_fd_message_even_capacity:
  assumes m: "0 \<le> max_fds" "max_fds < 2 ^ 31" "even max_fds"
    and len: "length fds = nat max_fds"
    and ret: "0 < rm_ret (recvmsg sockfd (size_t_of_int buflen) (control_size max_fds))"
    and flg: "rm_flags (recvmsg sockfd (size_t_of_int buflen) (control_size max_fds))
                AND (MSG_TRUNC OR MSG_CTRUNC) = 0"
    and fit: "recvmsg_fits (control_size max_fds)
                (recvmsg sockfd (size_t_of_int buflen) (control_size max_fds))"
    and sent: "sent = (case first_rights
                  (rm_control (recvmsg sockfd (size_t_of_int buflen) (control_size max_fds)))
                of None \<Rightarrow> [] | Some c \<Rightarrow> cmsg_data c)"
  shows "length sent \<le> nat max_fds \<and>
     read_fd_message recvmsg sockfd buflen fds max_fds =
       \<lparr>rr_ret = rm_ret (recvmsg sockfd (size_t_of_int buflen) (control_size max_fds)),
        rr_fds = sent @ replicate (nat max_fds - length sent) (- 1),
        rr_overrun = [], rr_fd_num = int (length sent), rr_log = []\<rparr>"
proof -
  let ?k = "recvmsg sockfd (size_t_of_int buflen) (control_size max_fds)"
  have "rm_flags ?k AND MSG_CTRUNC = 0"
    using flg by (simp add: bit.conj_disj_distrib or_eq_0_iff)
  with fit have ce: "control_end (rm_control ?k) \<le> 4 * nat max_fds + 16"
    by (simp add: recvmsg_fits_def control_size_even[OF m])
  have mn: "nat max_fds < 2 ^ 31" using m by (simp add: nat_less_iff)
  show ?thesis
  proof (cases "first_rights (rm_control ?k)")
    case None
    then have s: "sent = []" using sent by simp
    have "clear_unused (fds, []) 0 max_fds = (replicate (nat max_fds) (- 1), [])"
      using clear_unused_in_range[of 0 max_fds fds "[]"] m len by simp
    then show ?thesis
      using None ret flg s by (simp add: read_fd_message_def Let_def)
  next
    case (Some c)
    then have s: "sent = cmsg_data c" using sent by simp
    from first_rights_fits[OF Some] ce have "cmsg_size c \<le> 4 * nat max_fds + 16" by simp
    then have le: "length sent \<le> nat max_fds"
      by (simp add: cmsg_size_def s sizeof_cmsghdr_def sizeof_int_def)
    then have small: "length (cmsg_data c) < 2 ^ 31" using mn s by simp
    note g = got_fds_small[OF small refl]
    have cp: "memcpy_fds (fds, []) (cmsg_data c) (length (cmsg_data c)) =
        (cmsg_data c @ drop (length (cmsg_data c)) fds, [])"
      using memcpy_fds_in_range[of "length (cmsg_data c)" "cmsg_data c" fds "[]"] le len s
      by simp
    have cl: "clear_unused (cmsg_data c @ drop (length (cmsg_data c)) fds, [])
          (int (length (cmsg_data c))) max_fds =
        (cmsg_data c @ replicate (nat max_fds - length (cmsg_data c)) (- 1), [])"
      using clear_unused_in_range[of "int (length (cmsg_data c))" max_fds
          "cmsg_data c @ drop (length (cmsg_data c)) fds" "[]"] le len s m
      by (simp add: nat_diff_distrib')
    show ?thesis
      using Some ret flg s le g cp cl by (simp add: read_fd_message_def Let_def)
  qed
qed

text \<open>
  Claim C4 (at most \<^verbatim>\<open>max_fds\<close> descriptors are copied into the caller's array on a
  successful receive). The run below is a successful receive with \<^verbatim>\<open>max_fds = 1\<close>: the
  control buffer is \<^verbatim>\<open>CMSG_SPACE(4)\<close>, 24 bytes, of which 4 are alignment padding, so a
  record with two descriptors (\<^verbatim>\<open>cmsg_len = 24\<close>) fits and the kernel reports no
  truncation. The code then takes \<^verbatim>\<open>got_fds = 2\<close>, reports 2 and \<^verbatim>\<open>memcpy\<close> stores the
  second descriptor at index 1, past the end of the one-element array.
\<close>

theorem read_fd_message_copies_past_capacity:
  "control_size 1 = 24 \<and>
   control_end (rm_control (recvmsg_two_fds 3 4 (control_size 1))) \<le> control_size 1 \<and>
   rm_flags (recvmsg_two_fds 3 4 (control_size 1)) AND (MSG_TRUNC OR MSG_CTRUNC) = 0 \<and>
   read_fd_message recvmsg_two_fds 3 4 [0] 1 =
     \<lparr>rr_ret = 4, rr_fds = [7], rr_overrun = [(1, 8)], rr_fd_num = 2, rr_log = []\<rparr>"
  by (simp add: read_fd_message_def recvmsg_two_fds_def cmsg_size_def
      Let_def cmsg_len_def control_size_def abi_defs MSG_TRUNC_def MSG_CTRUNC_def
      SOL_SOCKET_def SCM_RIGHTS_def memcpy_fds_def store_fd_def upt_rec clear_unused.simps)

text \<open>
  Claim C5. \<^verbatim>\<open>read_fd_message\<close> returns a value \<open>\<le> 0\<close> exactly when \<^verbatim>\<open>recvmsg\<close> returned
  a value \<open>\<le> 0\<close> or set \<^verbatim>\<open>MSG_TRUNC\<close> or \<^verbatim>\<open>MSG_CTRUNC\<close>. In the first case it returns what
  \<^verbatim>\<open>recvmsg\<close> returned (0 for an orderly close, negative for a failed call) and logs
  "recvmsg failed"; in the second it returns -1 after the one \<^verbatim>\<open>recvmsg\<close> call and logs
  "truncted msg"; on any other reply it returns the positive number of bytes read.
\<close>

theorem read_fd_message_fails_iff:
  "let k = recvmsg sockfd (size_t_of_int buflen) (control_size max_fds);
       r = read_fd_message recvmsg sockfd buflen fds max_fds
   in (rr_ret r \<le> 0 \<longleftrightarrow> rm_ret k \<le> 0 \<or> rm_flags k AND (MSG_TRUNC OR MSG_CTRUNC) \<noteq> 0)
    \<and> (rm_ret k \<le> 0 \<longrightarrow> rr_ret r = rm_ret k \<and> rr_log r = [''recvmsg failed''])
    \<and> (rm_ret k = 0 \<longrightarrow> rr_ret r = 0)
    \<and> (rm_ret k < 0 \<longrightarrow> rr_ret r < 0)
    \<and> (0 < rm_ret k \<and> rm_flags k AND (MSG_TRUNC OR MSG_CTRUNC) \<noteq> 0 \<longrightarrow>
          rr_ret r = - 1 \<and> rr_log r = [''truncted msg''])
    \<and> (0 < rm_ret k \<and> rm_flags k AND (MSG_TRUNC OR MSG_CTRUNC) = 0 \<longrightarrow>
          rr_ret r = rm_ret k \<and> 0 < rr_ret r \<and> rr_log r = [])"
  by (auto simp: read_fd_message_def Let_def split: option.splits if_splits)

theorem read_fd_message_fails_iff_witness:
  "rr_ret (read_fd_message recvmsg_ctrunc 3 4 [5, 6] 2) = - 1 \<and>
   rr_log (read_fd_message recvmsg_ctrunc 3 4 [5, 6] 2) = [''truncted msg''] \<and>
   rr_ret (read_fd_message recvmsg_closed 3 4 [5, 6] 2) = 0 \<and>
   rr_ret (read_fd_message recvmsg_two_fds 3 4 [5, 6] 2) = 4"
  using read_fd_message_fails_iff[of recvmsg_ctrunc 3 4 2 "[5, 6]"]
    read_fd_message_fails_iff[of recvmsg_closed 3 4 2 "[5, 6]"]
    read_fd_message_fails_iff[of recvmsg_two_fds 3 4 2 "[5, 6]"]
  by (simp add: Let_def recvmsg_ctrunc_def recvmsg_closed_def recvmsg_two_fds_def
      MSG_TRUNC_def MSG_CTRUNC_def)

text \<open>
  Claim C10. \<^verbatim>\<open>*fd_num\<close> is set to 0 before \<^verbatim>\<open>recvmsg\<close> is called, and the array is
  written only after both failure checks: whenever \<^verbatim>\<open>read_fd_message\<close> returns a value
  \<open>\<le> 0\<close> (failed call, orderly close or truncation), the caller finds \<^verbatim>\<open>*fd_num = 0\<close> and
  its \<^verbatim>\<open>fds\<close> array as it was, and nothing was stored outside it.
\<close>

theorem read_fd_message_failure_leaves_fds:
  "rr_ret (read_fd_message recvmsg sockfd buflen fds max_fds) \<le> 0 \<Longrightarrow>
   rr_fd_num (read_fd_message recvmsg sockfd buflen fds max_fds) = 0 \<and>
   rr_fds (read_fd_message recvmsg sockfd buflen fds max_fds) = fds \<and>
   rr_overrun (read_fd_message recvmsg sockfd buflen fds max_fds) = []"
  by (auto simp: read_fd_message_def Let_def split: option.splits if_splits)

theorem read_fd_message_failure_leaves_fds_witness:
  "rr_ret (read_fd_message recvmsg_ctrunc 3 4 [5, 6] 2) \<le> 0 \<and>
   rr_fd_num (read_fd_message recvmsg_ctrunc 3 4 [5, 6] 2) = 0 \<and>
   rr_fds (read_fd_message recvmsg_ctrunc 3 4 [5, 6] 2) = [5, 6] \<and>
   rr_overrun (read_fd_message recvmsg_ctrunc 3 4 [5, 6] 2) = []"
proof -
  have h: "rr_ret (read_fd_message recvmsg_ctrunc 3 4 [5, 6] 2) \<le> 0"
    by (simp add: read_fd_message_def Let_def recvmsg_ctrunc_def MSG_TRUNC_def MSG_CTRUNC_def)
  from read_fd_message_failure_leaves_fds[OF h] h show ?thesis by simp
qed

subsection \<open>Sending\<close>

lemma CMSG_SPACE_small:
  assumes "n < 2 ^ 40"
  shows "CMSG_SPACE n = (n + 7) div 8 * 8 + 16"
proof -
  have a: "(n + 7) mod 2 ^ 64 = n + 7" using assms by simp
  have "(n + 7) div 8 * 8 \<le> n + 7" by simp
  then have b: "(n + 7) div 8 * 8 + 16 < 2 ^ 64" using assms by simp
  show ?thesis
    using a b
    by (simp add: CMSG_SPACE_def CMSG_ALIGN_def size_add_def sizeof_size_t_def
        sizeof_cmsghdr_def)
qed

lemma fdsize_small:
  assumes "0 \<le> fd_num" "fd_num < 2 ^ 31"
  shows "size_mul (size_t_of_int fd_num) sizeof_int = 4 * nat fd_num"
proof -
  have a: "fd_num mod 2 ^ 64 = fd_num" using assms by simp
  have "nat fd_num < 2 ^ 31" using assms by (simp add: nat_less_iff)
  then have b: "nat fd_num * 4 < 2 ^ 64" by simp
  show ?thesis using a b by (simp add: size_mul_def size_t_of_int_def sizeof_int_def)
qed

text \<open>The branch for \<^verbatim>\<open>cmsg == NULL\<close> is never taken: the control buffer always holds a
  header.\<close>

lemma firsthdr_not_null:
  assumes "0 \<le> fd_num" "fd_num < 2 ^ 31"
  shows "\<not> CMSG_FIRSTHDR_is_NULL (CMSG_SPACE (size_mul (size_t_of_int fd_num) sizeof_int))"
proof -
  have "nat fd_num < 2 ^ 31" using assms by (simp add: nat_less_iff)
  then have "4 * nat fd_num < 2 ^ 40" by simp
  then show ?thesis
    using assms
    by (simp add: fdsize_small CMSG_SPACE_small CMSG_FIRSTHDR_is_NULL_def sizeof_cmsghdr_def)
qed

lemma sendmsg_retry_returns:
  assumes "\<forall>i<n. interrupted (sendmsg (k + i) sockfd msgh MSG_NOSIGNAL)"
    and "\<not> interrupted (sendmsg (k + n) sockfd msgh MSG_NOSIGNAL)"
    and "n < fuel"
  shows "\<exists>e. sendmsg_retry fuel sendmsg sockfd msgh k errno calls =
           Some (sm_ret (sendmsg (k + n) sockfd msgh MSG_NOSIGNAL), e,
                 calls @ map (\<lambda>i. (MSG_NOSIGNAL, sm_ret (sendmsg i sockfd msgh MSG_NOSIGNAL)))
                           [k ..< Suc (k + n)])
         \<and> (sm_ret (sendmsg (k + n) sockfd msgh MSG_NOSIGNAL) < 0 \<longrightarrow>
              e = sm_errno (sendmsg (k + n) sockfd msgh MSG_NOSIGNAL))"
  using assms
proof (induction n arbitrary: fuel k errno calls)
  case 0
  then obtain f where f: "fuel = Suc f" by (cases fuel) auto
  from 0 show ?case
    by (auto simp: f Let_def interrupted_def)
next
  case (Suc n)
  then obtain f where f: "fuel = Suc f" by (cases fuel) auto
  have i0: "interrupted (sendmsg k sockfd msgh MSG_NOSIGNAL)"
    using Suc.prems(1) by (metis add.right_neutral zero_less_Suc)
  have p1: "\<forall>i<n. interrupted (sendmsg (Suc k + i) sockfd msgh MSG_NOSIGNAL)"
    using Suc.prems(1) by (metis Suc_less_eq add_Suc_shift)
  have p2: "\<not> interrupted (sendmsg (Suc k + n) sockfd msgh MSG_NOSIGNAL)"
    using Suc.prems(2) by simp
  have p3: "n < f" using Suc.prems(3) f by simp
  from Suc.IH[OF p1 p2 p3]
  obtain e where e: "sendmsg_retry f sendmsg sockfd msgh (Suc k) EINTR
        (calls @ [(MSG_NOSIGNAL, sm_ret (sendmsg k sockfd msgh MSG_NOSIGNAL))]) =
           Some (sm_ret (sendmsg (Suc k + n) sockfd msgh MSG_NOSIGNAL), e,
                 (calls @ [(MSG_NOSIGNAL, sm_ret (sendmsg k sockfd msgh MSG_NOSIGNAL))]) @
                 map (\<lambda>i. (MSG_NOSIGNAL, sm_ret (sendmsg i sockfd msgh MSG_NOSIGNAL)))
                   [Suc k ..< Suc (Suc k + n)])"
     and e2: "sm_ret (sendmsg (Suc k + n) sockfd msgh MSG_NOSIGNAL) < 0 \<longrightarrow>
              e = sm_errno (sendmsg (Suc k + n) sockfd msgh MSG_NOSIGNAL)"
    by blast
  have u: "[k ..< Suc (k + Suc n)] = k # [Suc k ..< Suc (Suc k + n)]"
    by (simp add: upt_rec)
  show ?case
    using i0 e e2 unfolding f u
    by (auto simp: Let_def interrupted_def)
qed

lemma sendmsg_retry_never_eintr:
  "sendmsg_retry fuel sendmsg sockfd msgh k errno calls = Some (ret, e, cs) \<Longrightarrow>
   \<not> (ret < 0 \<and> e = EINTR)"
  by (induction fuel arbitrary: k errno calls) (auto simp: Let_def split: if_splits)

text \<open>When every call is interrupted the loop never ends.\<close>

lemma sendmsg_retry_forever:
  "\<forall>i. interrupted (sendmsg i sockfd msgh MSG_NOSIGNAL) \<Longrightarrow>
   sendmsg_retry fuel sendmsg sockfd msgh k errno calls = None"
  by (induction fuel arbitrary: k errno calls) (auto simp: Let_def interrupted_def)

text \<open>
  Claim C6. When the first \<open>n\<close> \<^verbatim>\<open>sendmsg\<close> calls fail with \<^verbatim>\<open>EINTR\<close> and the next one does
  not, \<^verbatim>\<open>send_fd_message\<close> makes exactly these \<open>n + 1\<close> calls, each with the flag
  \<^verbatim>\<open>MSG_NOSIGNAL\<close>, and returns what the last one returned: the number of bytes written
  by that one call, or its negative value with its \<^verbatim>\<open>errno\<close> (\<^verbatim>\<open>EPIPE\<close> for a broken pipe).
  What it returns is never a failure with \<^verbatim>\<open>errno = EINTR\<close>.
\<close>

theorem send_fd_message_retries_eintr:
  assumes "fd_num < 2 ^ 31"
    and "\<forall>i<n. interrupted (sendmsg i sockfd (send_msghdr buflen fds fd_num) MSG_NOSIGNAL)"
    and "\<not> interrupted (sendmsg n sockfd (send_msghdr buflen fds fd_num) MSG_NOSIGNAL)"
    and "n < fuel"
  shows "\<exists>r. send_fd_message fuel sendmsg sockfd buflen fds fd_num errno = Some r
     \<and> sr_ret r = sm_ret (sendmsg n sockfd (send_msghdr buflen fds fd_num) MSG_NOSIGNAL)
     \<and> sr_calls r = map (\<lambda>i. (MSG_NOSIGNAL,
           sm_ret (sendmsg i sockfd (send_msghdr buflen fds fd_num) MSG_NOSIGNAL))) [0 ..< Suc n]
     \<and> \<not> (sr_ret r < 0 \<and> sr_errno r = EINTR)
     \<and> (sr_ret r < 0 \<longrightarrow>
          sr_errno r = sm_errno (sendmsg n sockfd (send_msghdr buflen fds fd_num) MSG_NOSIGNAL))"
proof -
  let ?m = "send_msghdr buflen fds fd_num"
  have nn: "\<not> (fds \<noteq> None \<and> fd_num > 0 \<and>
        CMSG_FIRSTHDR_is_NULL (CMSG_SPACE (size_mul (size_t_of_int fd_num) sizeof_int)))"
    using firsthdr_not_null[of fd_num] assms(1) by auto
  from sendmsg_retry_returns[of n sendmsg 0 sockfd ?m fuel errno "[]"] assms
  obtain e where e: "sendmsg_retry fuel sendmsg sockfd ?m 0 errno [] =
           Some (sm_ret (sendmsg n sockfd ?m MSG_NOSIGNAL), e,
                 map (\<lambda>i. (MSG_NOSIGNAL, sm_ret (sendmsg i sockfd ?m MSG_NOSIGNAL)))
                   [0 ..< Suc n])"
    and e2: "sm_ret (sendmsg n sockfd ?m MSG_NOSIGNAL) < 0 \<longrightarrow>
              e = sm_errno (sendmsg n sockfd ?m MSG_NOSIGNAL)"
    by auto
  have ne: "\<not> (sm_ret (sendmsg n sockfd ?m MSG_NOSIGNAL) < 0 \<and> e = EINTR)"
    using sendmsg_retry_never_eintr[OF e] .
  show ?thesis
    using nn e e2 ne by (simp add: send_fd_message_def Let_def)
qed

theorem send_fd_message_retries_eintr_witness:
  "send_fd_message 3 sendmsg_eintr_twice_then_epipe 5 4 (Some [9]) 1 0 =
     Some \<lparr>sr_ret = - 1, sr_errno = EPIPE,
           sr_calls = [(MSG_NOSIGNAL, - 1), (MSG_NOSIGNAL, - 1), (MSG_NOSIGNAL, - 1)],
           sr_log = [''sendmsg error'']\<rparr>"
proof -
  have h1: "(1::int) < 2 ^ 31" by simp
  have h2: "\<forall>i<2. interrupted
      (sendmsg_eintr_twice_then_epipe i 5 (send_msghdr 4 (Some [9]) 1) MSG_NOSIGNAL)"
    by (simp add: interrupted_def sendmsg_eintr_twice_then_epipe_def)
  have h3: "\<not> interrupted
      (sendmsg_eintr_twice_then_epipe 2 5 (send_msghdr 4 (Some [9]) 1) MSG_NOSIGNAL)"
    by (simp add: interrupted_def sendmsg_eintr_twice_then_epipe_def EINTR_def EPIPE_def)
  have h4: "(2::nat) < 3" by simp
  from send_fd_message_retries_eintr[of 1 2 sendmsg_eintr_twice_then_epipe 5 4 "Some [9]" 3 0]
    h1 h2 h3 h4
  show ?thesis
    by (auto simp: sendmsg_eintr_twice_then_epipe_def upt_rec send_fd_message_def Let_def
        numeral_3_eq_3 numeral_2_eq_2 firsthdr_not_null)
qed

section \<open>Properties of the connection management code\<close>

lemmas prim_defs = emit_def c_malloc_def c_free_def sys_close_def sys_socket_def
  sys_connect_def fcntl_getfl_def fcntl_setfl_def sys_unlink_def sys_sleep_def
  pthread_mutex_lock_def pthread_mutex_unlock_def pthread_mutex_destroy_def
  tailq_insert_tail_conn_def tailq_remove_conn_def tailq_insert_tail_reconn_def
  tailq_remove_reconn_def vhost_new_device_def vhost_destroy_device_def get_device_def
  vhost_destroy_device_notify_def vhost_set_ifname_def vhost_set_builtin_virtio_net_def
  vhost_attach_vdpa_device_def vhost_enable_dequeue_zero_copy_def fdset_add_def
  fdset_del_def fdset_try_del_def fdset_pipe_notify_def vhost_user_msg_handler_def
  cb_new_connection_def cb_destroy_connection_def

lemmas add_connection_defs = vhost_user_add_connection_def add_connection_err_def
  add_connection_err_cleanup_def configure_device_def notify_new_def populate_conn_def

lemmas scen_defs = env_ok_def env_no_register_def env_refused_def
  env_refused_no_memory_def env_handler_fails_def env_busy_def env_busy_at_first_def
  env_race_def env_no_socket_def world0_def world_pending_def world_connected_def
  world_server_flagged_def client_socket_def server_socket_def NULL_def

subsection \<open>What the calls into the environment leave behind\<close>

lemma c_malloc_result:
  "c_malloc E w = (p, w') \<Longrightarrow> p \<noteq> NULL \<Longrightarrow>
   w' = w\<lparr>allocated := insert p (allocated w), trace := trace w @ [Malloc p]\<rparr>"
  by (auto simp: c_malloc_def emit_def Let_def split: if_splits)

lemma c_malloc_null:
  "c_malloc E w = (NULL, w') \<Longrightarrow> w' = w\<lparr>trace := trace w @ [Malloc NULL]\<rparr>"
  by (auto simp: c_malloc_def emit_def Let_def split: if_splits)

lemma vhost_new_device_result:
  "vhost_new_device E w = (vid, w') \<Longrightarrow>
   (vid = - 1 \<and> w' = w\<lparr>trace := trace w @ [New_device (- 1)]\<rparr>) \<or>
   (0 \<le> vid \<and> w' = w\<lparr>devices := insert vid (devices w), trace := trace w @ [New_device vid]\<rparr>)"
  by (auto simp: vhost_new_device_def emit_def Let_def split: if_splits)

lemma configure_device_result:
  "configure_device vid vs w = w\<lparr>trace := trace w @ configure_events vid vs\<rparr>"
  by (simp add: configure_device_def configure_events_def Let_def emit_def
      vhost_set_ifname_def vhost_set_builtin_virtio_net_def vhost_attach_vdpa_device_def
      vhost_enable_dequeue_zero_copy_def)

lemma notify_new_result:
  "notify_new E vs vid w = (r, w') \<Longrightarrow>
   w' = w\<lparr>trace := trace w @ (if notify_new_connection vs then [Cb_new_connection vid r] else [])\<rparr>
   \<and> (\<not> notify_new_connection vs \<longrightarrow> r = 0)"
  by (auto simp: notify_new_def cb_new_connection_def emit_def Let_def split: if_splits)

lemma fdset_add_result:
  "fdset_add E fd cb w = (r, w') \<Longrightarrow>
   (r < 0 \<and> w' = w\<lparr>trace := trace w @ [Fdset_add fd cb r]\<rparr>) \<or>
   (r = 0 \<and> w' = w\<lparr>fdset := fdset w @ [(fd, cb)], trace := trace w @ [Fdset_add fd cb 0]\<rparr>)"
  by (auto simp: fdset_add_def emit_def Let_def split: if_splits)

lemma add_connection_unfold:
  assumes "vsocket \<noteq> NULL"
    and "c_malloc E w = (conn, w1)" and "conn \<noteq> NULL"
    and "vhost_new_device E w1 = (vid, w2)"
    and "notify_new E (socket (sock_mem w vsocket)) vid
           (configure_device vid (socket (sock_mem w vsocket)) w2) = (r1, w3)"
    and "fdset_add E fd (Read_cb conn) (populate_conn conn fd vsocket vid w3) = (r2, w4)"
  shows "vhost_user_add_connection E fd vsocket w =
     (if vid = - 1 then add_connection_err conn fd w2
      else if r1 < 0 then add_connection_err_cleanup vid conn fd w3
      else if r2 < 0 then
        add_connection_err_cleanup vid conn fd
          (if notify_destroy_connection (socket (sock_mem w vsocket))
           then cb_destroy_connection vid w4 else w4)
      else fdset_pipe_notify
             (pthread_mutex_unlock (Conn_mutex vsocket)
                (tailq_insert_tail_conn vsocket conn
                   (pthread_mutex_lock (Conn_mutex vsocket) w4))))"
proof -
  have s1: "sock_mem w1 = sock_mem w"
    using c_malloc_result[OF assms(2,3)] by simp
  have s2: "sock_mem w2 = sock_mem w"
    using vhost_new_device_result[OF assms(4)] s1 by auto
  have c4: "c_vid (conn_mem w4 conn) = vid"
    using fdset_add_result[OF assms(6)] by (auto simp: populate_conn_def)
  show ?thesis
    using assms s2 c4 by (simp add: vhost_user_add_connection_def)
qed


subsection \<open>Creating a connection\<close>

text \<open>
  Claim C9. With a \<^verbatim>\<open>NULL\<close> endpoint \<^verbatim>\<open>vhost_user_add_connection\<close> returns at once: the
  state is the one it was called in, so nothing was allocated, no device was created, no
  list was touched, no operation was performed, and the descriptor it was given is as
  open as before.
\<close>

theorem add_connection_null_endpoint:
  "vhost_user_add_connection E fd NULL w = w"
  by (simp add: vhost_user_add_connection_def)

theorem add_connection_null_endpoint_witness:
  "vhost_user_add_connection env_ok 5 NULL world0 = world0 \<and>
   5 \<in> open_fds (vhost_user_add_connection env_ok 5 NULL world0) \<and>
   trace (vhost_user_add_connection env_ok 5 NULL world0) = []"
  using add_connection_null_endpoint[of env_ok 5 world0] by (simp add: world0_def)


text \<open>
  Claim C1. The connection record has been allocated (\<open>conn\<close>), and one of the later steps
  fails: device creation (\<open>vid = -1\<close>), the owner's \<^verbatim>\<open>new_connection\<close> callback
  (\<open>r1 < 0\<close>) or the registration with the dispatcher (\<open>r2 < 0\<close>). Then the descriptor is
  closed, the record is freed, the device, if one was created, is destroyed, and the
  endpoint's memory (its connection list), the dispatcher's registrations and the
  reconnect list are what they were. The operations are, in this order: the allocation,
  the device creation, and, when a device was created, its configuration, the
  \<^verbatim>\<open>new_connection\<close> callback if set, the failed registration followed by the
  \<^verbatim>\<open>destroy_connection\<close> callback if set (when the callback had succeeded), the
  destruction of the device; then the release of the record and the close.
\<close>

theorem add_connection_failure_rolls_back:
  assumes "vsocket \<noteq> NULL"
    and "c_malloc E w = (conn, w1)" and "conn \<noteq> NULL"
    and "vhost_new_device E w1 = (vid, w2)"
    and "notify_new E (socket (sock_mem w vsocket)) vid
           (configure_device vid (socket (sock_mem w vsocket)) w2) = (r1, w3)"
    and "fdset_add E fd (Read_cb conn) (populate_conn conn fd vsocket vid w3) = (r2, w4)"
    and "vid = - 1 \<or> r1 < 0 \<or> r2 < 0"
  shows "open_fds (vhost_user_add_connection E fd vsocket w) = open_fds w - {fd} \<and>
     allocated (vhost_user_add_connection E fd vsocket w) = allocated w - {conn} \<and>
     devices (vhost_user_add_connection E fd vsocket w) =
       (if vid = - 1 then devices w else devices w - {vid}) \<and>
     sock_mem (vhost_user_add_connection E fd vsocket w) = sock_mem w \<and>
     fdset (vhost_user_add_connection E fd vsocket w) = fdset w \<and>
     reconn_list (vhost_user_add_connection E fd vsocket w) = reconn_list w \<and>
     trace (vhost_user_add_connection E fd vsocket w) =
       trace w @ [Malloc conn, New_device vid] @
       (if vid = - 1 then []
        else configure_events vid (socket (sock_mem w vsocket)) @
          (if notify_new_connection (socket (sock_mem w vsocket))
           then [Cb_new_connection vid r1] else []) @
          (if r1 < 0 then []
           else [Fdset_add fd (Read_cb conn) r2] @
             (if notify_destroy_connection (socket (sock_mem w vsocket))
              then [Cb_destroy_connection vid] else [])) @
          [Destroy_device vid]) @
       [Free conn, Close fd]"
proof -
  let ?vs = "socket (sock_mem w vsocket)"
  note u = add_connection_unfold[OF assms(1-6)]
  note e1 = c_malloc_result[OF assms(2,3)]
  note e2 = vhost_new_device_result[OF assms(4)]
  note e3 = notify_new_result[OF assms(5)]
  note e4 = fdset_add_result[OF assms(6)]
  show ?thesis
  proof (cases "vid = - 1")
    case True
    with e2 have w2: "w2 = w1\<lparr>trace := trace w1 @ [New_device (- 1)]\<rparr>" by auto
    show ?thesis
      unfolding u using True
      by (simp add: w2 e1 add_connection_err_def sys_close_def c_free_def emit_def)
  next
    case False
    with e2 have w2: "w2 = w1\<lparr>devices := insert vid (devices w1),
        trace := trace w1 @ [New_device vid]\<rparr>" by auto
    from e3 have w3: "w3 = (configure_device vid ?vs w2)\<lparr>trace :=
        trace (configure_device vid ?vs w2) @
          (if notify_new_connection ?vs then [Cb_new_connection vid r1] else [])\<rparr>"
      by simp
    show ?thesis
    proof (cases "r1 < 0")
      case True
      show ?thesis
        unfolding u using True False
        by (simp add: w3 configure_device_result w2 e1 add_connection_err_cleanup_def
            add_connection_err_def vhost_destroy_device_def sys_close_def c_free_def emit_def)
    next
      case r1: False
      with assms(7) False have r2: "r2 < 0" by simp
      with e4 have w4: "w4 = (populate_conn conn fd vsocket vid w3)\<lparr>trace :=
          trace (populate_conn conn fd vsocket vid w3) @ [Fdset_add fd (Read_cb conn) r2]\<rparr>"
        by auto
      show ?thesis
        unfolding u using r1 r2 False
        by (simp add: w4 populate_conn_def w3 configure_device_result w2 e1
            add_connection_err_cleanup_def add_connection_err_def cb_destroy_connection_def
            vhost_destroy_device_def sys_close_def c_free_def emit_def)
    qed
  qed
qed



theorem add_connection_failure_rolls_back_witness:
  "5 \<notin> open_fds (vhost_user_add_connection env_no_register 5 1 world0) \<and>
   allocated (vhost_user_add_connection env_no_register 5 1 world0) = {1, 2} \<and>
   devices (vhost_user_add_connection env_no_register 5 1 world0) = {} \<and>
   conn_list (sock_mem (vhost_user_add_connection env_no_register 5 1 world0) 1) = [] \<and>
   fdset (vhost_user_add_connection env_no_register 5 1 world0) =
     [(6, Server_new_connection_cb 2)] \<and>
   trace (vhost_user_add_connection env_no_register 5 1 world0) =
     [Malloc 100, New_device 0, Set_ifname 0 ''/tmp/sock'' 9, Set_builtin_virtio_net 0 False,
      Attach_vdpa_device 0 (- 1), Cb_new_connection 0 0, Fdset_add 5 (Read_cb 100) (- 1),
      Cb_destroy_connection 0, Destroy_device 0, Free 100, Close 5]"
proof -
  let ?E = env_no_register
  let ?w1 = "snd (c_malloc ?E world0)"
  let ?w2 = "snd (vhost_new_device ?E ?w1)"
  let ?w3 = "snd (notify_new ?E (socket (sock_mem world0 1)) 0
                (configure_device 0 (socket (sock_mem world0 1)) ?w2))"
  let ?w4 = "snd (fdset_add ?E 5 (Read_cb 100) (populate_conn 100 5 1 0 ?w3))"
  have h1: "(1::nat) \<noteq> NULL" by (simp add: NULL_def)
  have h2: "c_malloc ?E world0 = (100, ?w1)"
    by (simp add: prod_eq_iff c_malloc_def Let_def scen_defs)
  have h3: "(100::nat) \<noteq> NULL" by (simp add: NULL_def)
  have h4: "vhost_new_device ?E ?w1 = (0, ?w2)"
    by (simp add: prod_eq_iff vhost_new_device_def Let_def scen_defs)
  have h5: "notify_new ?E (socket (sock_mem world0 1)) 0
                (configure_device 0 (socket (sock_mem world0 1)) ?w2) = (0, ?w3)"
    by (simp add: prod_eq_iff notify_new_def cb_new_connection_def Let_def scen_defs)
  have h6: "fdset_add ?E 5 (Read_cb 100) (populate_conn 100 5 1 0 ?w3) = (- 1, ?w4)"
    by (simp add: prod_eq_iff fdset_add_def Let_def scen_defs)
  have h7: "(0::int) = - 1 \<or> (0::int) < 0 \<or> (- 1::int) < 0" by simp
  from add_connection_failure_rolls_back[OF h1 h2 h3 h4 h5 h6 h7]
  show ?thesis
    by (simp add: configure_events_def strnlen_def PATH_MAX_def scen_defs)
qed


text \<open>\<^verbatim>\<open>vhost_user_add_connection\<close> never touches the reconnect list or its entries.\<close>

lemma add_connection_frame:
  "reconn_list (vhost_user_add_connection E fd vsocket w) = reconn_list w \<and>
   reconn_mem (vhost_user_add_connection E fd vsocket w) = reconn_mem w"
proof (cases "vsocket = NULL")
  case True
  then show ?thesis by (simp add: vhost_user_add_connection_def)
next
  case vs: False
  obtain conn w1 where m: "c_malloc E w = (conn, w1)" by force
  show ?thesis
  proof (cases "conn = NULL")
    case True
    with m have "w1 = w\<lparr>trace := trace w @ [Malloc NULL]\<rparr>" using c_malloc_null by simp
    then show ?thesis
      using vs m True by (simp add: vhost_user_add_connection_def sys_close_def emit_def)
  next
    case cn: False
    obtain vid w2 where d: "vhost_new_device E w1 = (vid, w2)" by force
    obtain r1 w3 where n: "notify_new E (socket (sock_mem w vsocket)) vid
           (configure_device vid (socket (sock_mem w vsocket)) w2) = (r1, w3)" by force
    obtain r2 w4 where f:
      "fdset_add E fd (Read_cb conn) (populate_conn conn fd vsocket vid w3) = (r2, w4)" by force
    note u = add_connection_unfold[OF vs m cn d n f]
    note e1 = c_malloc_result[OF m cn]
    have e2: "reconn_list w2 = reconn_list w1 \<and> reconn_mem w2 = reconn_mem w1"
      using vhost_new_device_result[OF d] by auto
    have e3: "reconn_list w3 = reconn_list w2 \<and> reconn_mem w3 = reconn_mem w2"
      using notify_new_result[OF n] by (simp add: configure_device_result)
    have e4: "reconn_list w4 = reconn_list w3 \<and> reconn_mem w4 = reconn_mem w3"
      using fdset_add_result[OF f] by (auto simp: populate_conn_def)
    show ?thesis
      unfolding u
      by (simp add: e4 e3 e2 e1 add_connection_err_cleanup_def add_connection_err_def
          cb_destroy_connection_def vhost_destroy_device_def sys_close_def c_free_def emit_def
          fdset_pipe_notify_def pthread_mutex_unlock_def pthread_mutex_lock_def
          tailq_insert_tail_conn_def)
  qed
qed


subsection \<open>Starting a client\<close>

lemma setfl_clears_nonblock:
  "((old AND O_ACCMODE) OR ((f AND NOT O_NONBLOCK) AND NOT O_ACCMODE)) AND O_NONBLOCK = (0::int)"
  by (simp add: O_ACCMODE_def O_NONBLOCK_def bit.conj_disj_distrib2 and.assoc
      and.left_commute)

lemma connect_nonblock_result:
  "vhost_user_connect_nonblock E fd sp w = (ret, w1) \<Longrightarrow>
     (ret = 0 \<or> ret = - 1 \<or> ret = - 2) \<and>
     (ret = - 1 \<longleftrightarrow> fst (connect_ret E w fd) < 0 \<and> snd (connect_ret E w fd) \<noteq> EISCONN) \<and>
     (ret = 0 \<longrightarrow> fd_flags w1 fd AND O_NONBLOCK = 0) \<and>
     open_fds w1 = open_fds w \<and> allocated w1 = allocated w \<and> devices w1 = devices w \<and>
     sock_mem w1 = sock_mem w \<and> conn_mem w1 = conn_mem w \<and> reconn_mem w1 = reconn_mem w \<and>
     reconn_list w1 = reconn_list w \<and> fdset w1 = fdset w"
  by (auto simp: vhost_user_connect_nonblock_def sys_connect_def fcntl_getfl_def
      fcntl_setfl_def emit_def Let_def setfl_clears_nonblock split: if_splits prod.splits)






subsection \<open>The reconnect thread\<close>

lemma reconnect_entries_fold:
  "reconnect_entries E ps w = fold (reconnect_entry E) ps w"
  by (induction ps arbitrary: w) simp_all

text \<open>
  Claim C8, as the code has it. The sweep runs the loop body on every entry that is in the
  list when it starts, in order, between locking and unlocking the list's mutex. For one
  entry: when \<^verbatim>\<open>vhost_user_connect_nonblock\<close> returns -2 the descriptor is closed, the
  entry is removed from the list and freed; when it returns -1 the entry, its descriptor
  and the list stay as they are; when it returns 0 the descriptor and the entry's endpoint
  are handed to \<^verbatim>\<open>vhost_user_add_connection\<close> first, with the entry still in the list,
  and only when that call has returned is the entry removed from the list and freed.
\<close>

theorem reconnect_entry_outcomes:
  assumes c: "vhost_user_connect_nonblock E (r_fd (reconn_mem w reconn))
                (r_un (reconn_mem w reconn)) w = (ret, w1)"
  shows "(ret = 0 \<or> ret = - 1 \<or> ret = - 2) \<and>
     (ret = - 2 \<longrightarrow>
        reconnect_entry E reconn w = remove_fd reconn (sys_close (r_fd (reconn_mem w reconn)) w1) \<and>
        open_fds (reconnect_entry E reconn w) = open_fds w - {r_fd (reconn_mem w reconn)} \<and>
        reconn_list (reconnect_entry E reconn w) = remove1 reconn (reconn_list w) \<and>
        allocated (reconnect_entry E reconn w) = allocated w - {reconn} \<and>
        trace (reconnect_entry E reconn w) =
          trace w1 @ [Close (r_fd (reconn_mem w reconn)), Tailq_remove Reconn_list reconn,
                      Free reconn]) \<and>
     (ret = - 1 \<longrightarrow>
        reconnect_entry E reconn w = w1 \<and>
        reconn_list (reconnect_entry E reconn w) = reconn_list w \<and>
        open_fds (reconnect_entry E reconn w) = open_fds w \<and>
        allocated (reconnect_entry E reconn w) = allocated w) \<and>
     (ret = 0 \<longrightarrow>
        reconnect_entry E reconn w =
          remove_fd reconn
            (vhost_user_add_connection E (r_fd (reconn_mem w reconn))
               (r_vsocket (reconn_mem w reconn)) w1) \<and>
        reconn_list w1 = reconn_list w \<and>
        reconn_list (vhost_user_add_connection E (r_fd (reconn_mem w reconn))
                       (r_vsocket (reconn_mem w reconn)) w1) = reconn_list w \<and>
        reconn_list (reconnect_entry E reconn w) = remove1 reconn (reconn_list w) \<and>
        trace (reconnect_entry E reconn w) =
          trace (vhost_user_add_connection E (r_fd (reconn_mem w reconn))
                   (r_vsocket (reconn_mem w reconn)) w1) @
          [Tailq_remove Reconn_list reconn, Free reconn]) \<and>
     vhost_user_client_reconnect_sweep E w =
       sys_sleep 1 (pthread_mutex_unlock Reconn_mutex
         (fold (reconnect_entry E) (reconn_list w) (pthread_mutex_lock Reconn_mutex w)))"
proof -
  note r = connect_nonblock_result[OF c]
  have m: "reconn_mem w1 = reconn_mem w" using r by simp
  have fr: "open_fds w1 = open_fds w" "allocated w1 = allocated w"
    "reconn_list w1 = reconn_list w"
    using r by simp_all
  note f = add_connection_frame[of E "r_fd (reconn_mem w reconn)"
      "r_vsocket (reconn_mem w reconn)" w1]
  have a: "ret = - 2 \<longrightarrow>
        reconnect_entry E reconn w = remove_fd reconn (sys_close (r_fd (reconn_mem w reconn)) w1) \<and>
        open_fds (reconnect_entry E reconn w) = open_fds w - {r_fd (reconn_mem w reconn)} \<and>
        reconn_list (reconnect_entry E reconn w) = remove1 reconn (reconn_list w) \<and>
        allocated (reconnect_entry E reconn w) = allocated w - {reconn} \<and>
        trace (reconnect_entry E reconn w) =
          trace w1 @ [Close (r_fd (reconn_mem w reconn)), Tailq_remove Reconn_list reconn,
                      Free reconn]"
    using c m fr
    by (simp add: reconnect_entry_def remove_fd_def c_free_def tailq_remove_reconn_def
        sys_close_def emit_def)
  have b: "ret = - 1 \<longrightarrow>
        reconnect_entry E reconn w = w1 \<and>
        reconn_list (reconnect_entry E reconn w) = reconn_list w \<and>
        open_fds (reconnect_entry E reconn w) = open_fds w \<and>
        allocated (reconnect_entry E reconn w) = allocated w"
    using c m fr by (simp add: reconnect_entry_def)
  have d: "ret = 0 \<longrightarrow>
        reconnect_entry E reconn w =
          remove_fd reconn
            (vhost_user_add_connection E (r_fd (reconn_mem w reconn))
               (r_vsocket (reconn_mem w reconn)) w1) \<and>
        reconn_list w1 = reconn_list w \<and>
        reconn_list (vhost_user_add_connection E (r_fd (reconn_mem w reconn))
                       (r_vsocket (reconn_mem w reconn)) w1) = reconn_list w \<and>
        reconn_list (reconnect_entry E reconn w) = remove1 reconn (reconn_list w) \<and>
        trace (reconnect_entry E reconn w) =
          trace (vhost_user_add_connection E (r_fd (reconn_mem w reconn))
                   (r_vsocket (reconn_mem w reconn)) w1) @
          [Tailq_remove Reconn_list reconn, Free reconn]"
    using c m fr f
    by (simp add: reconnect_entry_def remove_fd_def c_free_def tailq_remove_reconn_def emit_def)
  have s: "vhost_user_client_reconnect_sweep E w =
       sys_sleep 1 (pthread_mutex_unlock Reconn_mutex
         (fold (reconnect_entry E) (reconn_list w) (pthread_mutex_lock Reconn_mutex w)))"
    by (simp add: vhost_user_client_reconnect_sweep_def Let_def reconnect_entries_fold
        pthread_mutex_lock_def emit_def)
  from r a b d s show ?thesis by blast
qed

theorem reconnect_entry_outcomes_witness:
  "reconn_list (reconnect_entry env_ok 50 world_pending) = [] \<and>
   trace (reconnect_entry env_ok 50 world_pending) =
     trace (vhost_user_add_connection env_ok 5 1
       (snd (vhost_user_connect_nonblock env_ok 5 ''/tmp/sock'' world_pending))) @
     [Tailq_remove Reconn_list 50, Free 50]"
proof -
  have h: "vhost_user_connect_nonblock env_ok (r_fd (reconn_mem world_pending 50))
      (r_un (reconn_mem world_pending 50)) world_pending =
      (0, snd (vhost_user_connect_nonblock env_ok 5 ''/tmp/sock'' world_pending))"
    by (simp add: prod_eq_iff vhost_user_connect_nonblock_def prim_defs Let_def scen_defs
        O_NONBLOCK_def O_RDWR_def EISCONN_def)
  have e: "r_fd (reconn_mem world_pending 50) = 5" "r_vsocket (reconn_mem world_pending 50) = 1"
    "reconn_list world_pending = [50]"
    by (simp_all add: scen_defs)
  note o = reconnect_entry_outcomes[OF h, THEN conjunct2, THEN conjunct2, THEN conjunct2,
      THEN conjunct1, rule_format, OF refl, THEN conjunct2]
  from o show ?thesis by (simp add: e)
qed

text \<open>
  Claim C8 as stated has the entry removed from the list before the descriptor is handed
  on. In this sweep over one entry whose connect completes, every operation of
  \<^verbatim>\<open>vhost_user_add_connection\<close>, from its \<^verbatim>\<open>malloc\<close> to the wake-up of the dispatcher,
  comes before the removal of the entry.
\<close>

lemmas run_defs = vhost_user_client_reconnect_sweep_def reconnect_entry_def remove_fd_def
  vhost_user_connect_nonblock_def vhost_user_start_client_def create_unix_socket_def
  add_connection_defs prim_defs Let_def scen_defs strnlen_def PATH_MAX_def O_NONBLOCK_def
  O_RDWR_def EISCONN_def SUN_PATH_SIZE_def

theorem reconnect_sweep_removes_after_handoff:
  "trace (vhost_user_client_reconnect_sweep env_ok world_pending) =
     [Mutex_lock Reconn_mutex, Connect 5 0, Fcntl_getfl 5 2050, Fcntl_setfl 5 2 0,
      Malloc 104, New_device 0, Set_ifname 0 ''/tmp/sock'' 9, Set_builtin_virtio_net 0 False,
      Attach_vdpa_device 0 (- 1), Cb_new_connection 0 0, Fdset_add 5 (Read_cb 104) 0,
      Mutex_lock (Conn_mutex 1), Tailq_insert_tail (Conn_list 1) 104,
      Mutex_unlock (Conn_mutex 1), Fdset_pipe_notify,
      Tailq_remove Reconn_list 50, Free 50, Mutex_unlock Reconn_mutex, Sleep 1] \<and>
   precedes (Fdset_pipe_notify) (Tailq_remove Reconn_list 50)
     (trace (vhost_user_client_reconnect_sweep env_ok world_pending)) \<and>
   \<not> precedes (Tailq_remove Reconn_list 50) (Malloc 104)
     (trace (vhost_user_client_reconnect_sweep env_ok world_pending))"
  by (simp add: run_defs precedes_def)


subsection \<open>The read callback\<close>

text \<open>When the protocol handler does not fail the callback does nothing more: the
  connection stays as it is and \<^verbatim>\<open>*remove\<close> is not touched.\<close>

lemma read_cb_success_leaves_connection:
  assumes "vhost_user_msg_handler E (c_vid (conn_mem w conn)) connfd w = (ret, w1)"
    and "0 \<le> ret"
  shows "vhost_user_read_cb E connfd conn remove w = (remove, w1) \<and>
     w1 = w\<lparr>trace := trace w @ [Msg_handler (c_vid (conn_mem w conn)) connfd ret]\<rparr>"
  using assms
  by (auto simp: vhost_user_read_cb_def vhost_user_msg_handler_def emit_def Let_def)









subsection \<open>Endpoint teardown\<close>






















end
